theory Spec2Isabelle
  imports Complex_Main
begin

unbundle bit_operations_syntax

section \<open>Python strings and the library functions the program calls\<close>

text \<open>
  A Python \<^verbatim>\<open>str\<close> is a sequence of Unicode code points, so a string is a list of
  natural numbers; \<open>asc\<close> embeds an ASCII literal. Functions whose result is fixed by the
  language for every string (\<^verbatim>\<open>strip\<close>, \<^verbatim>\<open>split\<close>, \<^verbatim>\<open>join\<close>, \<^verbatim>\<open>in\<close>,
  \<^verbatim>\<open>startswith\<close>, \<^verbatim>\<open>endswith\<close>) are defined outright. Functions that consult the
  Unicode character database (\<^verbatim>\<open>lower\<close>, \<^verbatim>\<open>upper\<close>, \<^verbatim>\<open>isupper\<close>, NFKD
  normalisation, the classes \<^verbatim>\<open>\d\<close> and \<^verbatim>\<open>\w\<close>, case-insensitive matching) are
  defined outright on ASCII and read a table, the record \<open>pylib\<close>, for anything beyond
  ASCII. The same record holds the two packages the program imports and does not
  contain: \<^verbatim>\<open>langdetect.detect\<close> and \<^verbatim>\<open>difflib.SequenceMatcher.ratio\<close>.
\<close>

type_synonym pystr = "nat list"

definition asc :: "string \<Rightarrow> pystr" where
  "asc s = map of_char s"

record pylib =
  u_lower :: "pystr \<Rightarrow> pystr"
  u_upper :: "pystr \<Rightarrow> pystr"
  u_isupper :: "pystr \<Rightarrow> bool"
  u_nfkd :: "pystr \<Rightarrow> pystr"
  u_isdigit :: "nat \<Rightarrow> bool"
  u_isword :: "nat \<Rightarrow> bool"
  u_variants :: "nat \<Rightarrow> nat list"
  seq_ratio :: "pystr \<Rightarrow> pystr \<Rightarrow> rat"
  detect :: "pystr \<Rightarrow> pystr option"

text \<open>\<^verbatim>\<open>str.isspace\<close> of one character; also the class \<^verbatim>\<open>\s\<close> of \<^verbatim>\<open>re\<close>.\<close>

definition py_isspace :: "nat \<Rightarrow> bool" where
  "py_isspace c \<longleftrightarrow>
     (9 \<le> c \<and> c \<le> 13) \<or> (28 \<le> c \<and> c \<le> 32) \<or> c = 133 \<or> c = 160 \<or> c = 5760 \<or>
     (8192 \<le> c \<and> c \<le> 8202) \<or> c = 8232 \<or> c = 8233 \<or> c = 8239 \<or> c = 8287 \<or> c = 12288"

definition py_strip :: "pystr \<Rightarrow> pystr" where
  "py_strip s = rev (dropWhile py_isspace (rev (dropWhile py_isspace s)))"

text \<open>\<^verbatim>\<open>s.split()\<close>: the maximal runs of non-whitespace characters.\<close>

fun split_ws :: "pystr \<Rightarrow> pystr \<Rightarrow> pystr list" where
  "split_ws w [] = (if w = [] then [] else [w])"
| "split_ws w (c # cs) =
     (if py_isspace c then (if w = [] then split_ws [] cs else w # split_ws [] cs)
      else split_ws (w @ [c]) cs)"

definition py_split :: "pystr \<Rightarrow> pystr list" where
  "py_split s = split_ws [] s"

text \<open>\<^verbatim>\<open>s.split(sep)\<close> for a separator of one character.\<close>

fun split_on :: "nat \<Rightarrow> pystr \<Rightarrow> pystr \<Rightarrow> pystr list" where
  "split_on sep w [] = [w]"
| "split_on sep w (c # cs) =
     (if c = sep then w # split_on sep [] cs else split_on sep (w @ [c]) cs)"

fun py_join :: "pystr \<Rightarrow> pystr list \<Rightarrow> pystr" where
  "py_join sep [] = []"
| "py_join sep [x] = x"
| "py_join sep (x # y # ys) = x @ sep @ py_join sep (y # ys)"

definition py_startswith :: "pystr \<Rightarrow> pystr \<Rightarrow> bool" where
  "py_startswith s p \<longleftrightarrow> take (length p) s = p"

definition py_endswith :: "pystr \<Rightarrow> pystr \<Rightarrow> bool" where
  "py_endswith s p \<longleftrightarrow> length p \<le> length s \<and> drop (length s - length p) s = p"

text \<open>\<^verbatim>\<open>sub in s\<close>.\<close>

fun py_in :: "pystr \<Rightarrow> pystr \<Rightarrow> bool" where
  "py_in sub [] = (sub = [])"
| "py_in sub (c # cs) = (py_startswith (c # cs) sub \<or> py_in sub cs)"

definition is_ascii :: "pystr \<Rightarrow> bool" where
  "is_ascii s = list_all (\<lambda>c. c < 128) s"

definition ascii_lower :: "nat \<Rightarrow> nat" where
  "ascii_lower c = (if 65 \<le> c \<and> c \<le> 90 then c + 32 else c)"

definition ascii_upper :: "nat \<Rightarrow> nat" where
  "ascii_upper c = (if 97 \<le> c \<and> c \<le> 122 then c - 32 else c)"

definition ascii_swapcase :: "nat \<Rightarrow> nat" where
  "ascii_swapcase c =
     (if 65 \<le> c \<and> c \<le> 90 then c + 32 else if 97 \<le> c \<and> c \<le> 122 then c - 32 else c)"

definition py_lower :: "pylib \<Rightarrow> pystr \<Rightarrow> pystr" where
  "py_lower U s = (if is_ascii s then map ascii_lower s else u_lower U s)"

definition py_upper :: "pylib \<Rightarrow> pystr \<Rightarrow> pystr" where
  "py_upper U s = (if is_ascii s then map ascii_upper s else u_upper U s)"

text \<open>\<^verbatim>\<open>s.isupper()\<close>: at least one cased character and no lower-case one.\<close>

definition py_isupper :: "pylib \<Rightarrow> pystr \<Rightarrow> bool" where
  "py_isupper U s =
     (if is_ascii s
      then list_ex (\<lambda>c. 65 \<le> c \<and> c \<le> 90) s \<and> \<not> list_ex (\<lambda>c. 97 \<le> c \<and> c \<le> 122) s
      else u_isupper U s)"

text \<open>\<^verbatim>\<open>unicodedata.normalize('NFKD', s)\<close>: the identity on ASCII.\<close>

definition nfkd :: "pylib \<Rightarrow> pystr \<Rightarrow> pystr" where
  "nfkd U s = (if is_ascii s then s else u_nfkd U s)"

subsection \<open>Regular expressions\<close>

text \<open>
  The patterns of the program use literals, character sets, \<^verbatim>\<open>.\<close>, the anchors
  \<^verbatim>\<open>^\<close> and \<^verbatim>\<open>$\<close>, grouping, alternation and the quantifiers \<^verbatim>\<open>*\<close>, \<^verbatim>\<open>+\<close>,
  \<^verbatim>\<open>?\<close>, \<^verbatim>\<open>{n}\<close> and \<^verbatim>\<open>{n,}\<close>; none has a back-reference or a look-around, so
  \<^verbatim>\<open>re.match\<close> succeeds exactly when some prefix of the text is in the language of the
  pattern. \<open>rx_run\<close> computes the rests of the text after every such prefix.
\<close>

datatype cset = Ch nat | Rng nat nat | Dig | Wrd | Spc

datatype rx = Eps | Set "cset list" | NSet "cset list" | Dot | Bol | Eol
  | Seq rx rx | Alt rx rx | Star rx

fun in_cset :: "pylib \<Rightarrow> cset \<Rightarrow> nat \<Rightarrow> bool" where
  "in_cset U (Ch x) c = (c = x)"
| "in_cset U (Rng lo hi) c = (lo \<le> c \<and> c \<le> hi)"
| "in_cset U Dig c = (if c < 128 then 48 \<le> c \<and> c \<le> 57 else u_isdigit U c)"
| "in_cset U Wrd c =
     (if c < 128 then (48 \<le> c \<and> c \<le> 57) \<or> (65 \<le> c \<and> c \<le> 90) \<or> (97 \<le> c \<and> c \<le> 122) \<or> c = 95
      else u_isword U c)"
| "in_cset U Spc c = py_isspace c"

text \<open>
  Membership of a character in a set; under \<^verbatim>\<open>re.IGNORECASE\<close> (\<open>ic\<close>) the other case
  of the character counts too.
\<close>

definition in_class :: "pylib \<Rightarrow> bool \<Rightarrow> cset list \<Rightarrow> nat \<Rightarrow> bool" where
  "in_class U ic cs c =
     (list_ex (\<lambda>a. in_cset U a c) cs \<or>
      (ic \<and> (if c < 128 then list_ex (\<lambda>a. in_cset U a (ascii_swapcase c)) cs
             else list_ex (\<lambda>v. list_ex (\<lambda>a. in_cset U a v) cs) (u_variants U c))))"

fun star_run :: "(pystr \<Rightarrow> pystr list) \<Rightarrow> nat \<Rightarrow> pystr \<Rightarrow> pystr list" where
  "star_run f 0 s = [s]"
| "star_run f (Suc k) s =
     s # concat (map (star_run f k) (filter (\<lambda>r. length r < length s) (f s)))"

fun rx_run :: "pylib \<Rightarrow> bool \<Rightarrow> nat \<Rightarrow> rx \<Rightarrow> pystr \<Rightarrow> pystr list" where
  "rx_run U ic n Eps s = [s]"
| "rx_run U ic n (Set cs) s =
     (case s of [] \<Rightarrow> [] | c # r \<Rightarrow> if in_class U ic cs c then [r] else [])"
| "rx_run U ic n (NSet cs) s =
     (case s of [] \<Rightarrow> [] | c # r \<Rightarrow> if in_class U ic cs c then [] else [r])"
| "rx_run U ic n Dot s = (case s of [] \<Rightarrow> [] | c # r \<Rightarrow> if c = 10 then [] else [r])"
| "rx_run U ic n Bol s = (if length s = n then [s] else [])"
| "rx_run U ic n Eol s = (if s = [] \<or> s = [10] then [s] else [])"
| "rx_run U ic n (Seq a b) s = concat (map (rx_run U ic n b) (rx_run U ic n a s))"
| "rx_run U ic n (Alt a b) s = rx_run U ic n a s @ rx_run U ic n b s"
| "rx_run U ic n (Star a) s = star_run (rx_run U ic n a) (length s) s"

text \<open>\<^verbatim>\<open>re.match(p, text)\<close> (\<open>ic = False\<close>) and \<^verbatim>\<open>re.match(p, text, re.IGNORECASE)\<close>,
  as a truth value.\<close>

definition re_match :: "pylib \<Rightarrow> bool \<Rightarrow> rx \<Rightarrow> pystr \<Rightarrow> bool" where
  "re_match U ic p t \<longleftrightarrow> rx_run U ic (length t) p t \<noteq> []"

text \<open>Abbreviations for writing patterns.\<close>

definition cat :: "rx list \<Rightarrow> rx" where
  "cat rs = foldr Seq rs Eps"

fun alts :: "rx list \<Rightarrow> rx" where
  "alts [] = Eps"
| "alts [r] = r"
| "alts (r # rs) = Alt r (alts rs)"

definition rx_plus :: "rx \<Rightarrow> rx" where
  "rx_plus r = Seq r (Star r)"

definition rx_opt :: "rx \<Rightarrow> rx" where
  "rx_opt r = Alt r Eps"

text \<open>\<^verbatim>\<open>r{k}\<close> and \<^verbatim>\<open>r{k,}\<close>.\<close>

fun rx_times :: "nat \<Rightarrow> rx \<Rightarrow> rx" where
  "rx_times 0 r = Eps"
| "rx_times (Suc k) r = Seq r (rx_times k r)"

definition at_least :: "nat \<Rightarrow> rx \<Rightarrow> rx" where
  "at_least k r = Seq (rx_times k r) (Star r)"

definition litp :: "pystr \<Rightarrow> rx" where
  "litp s = cat (map (\<lambda>c. Set [Ch c]) s)"

definition lit :: "string \<Rightarrow> rx" where
  "lit s = litp (asc s)"

definition chs :: "string \<Rightarrow> cset list" where
  "chs s = map (\<lambda>c. Ch (of_char c)) s"

definition rng :: "char \<Rightarrow> char \<Rightarrow> cset" where
  "rng a b = Rng (of_char a) (of_char b)"

definition dg :: rx where "dg = Set [Dig]"
definition sp :: rx where "sp = Set [Spc]"
definition AZ :: rx where "AZ = Set [rng CHR ''A'' CHR ''Z'']"


text \<open>\<^verbatim>\<open>re.sub(r'\s+', ' ', s)\<close>: every maximal run of whitespace becomes one space.\<close>

fun collapse_run :: "bool \<Rightarrow> pystr \<Rightarrow> pystr" where
  "collapse_run in_run [] = []"
| "collapse_run in_run (c # cs) =
     (if py_isspace c then (if in_run then collapse_run True cs else 32 # collapse_run True cs)
      else c # collapse_run False cs)"

definition collapse_ws :: "pystr \<Rightarrow> pystr" where
  "collapse_ws s = collapse_run False s"

text \<open>\<^verbatim>\<open>re.sub(r'[^A-Za-z0-9 ]', '', s)\<close>.\<close>

definition alnum_space :: "nat \<Rightarrow> bool" where
  "alnum_space c \<longleftrightarrow>
     (65 \<le> c \<and> c \<le> 90) \<or> (97 \<le> c \<and> c \<le> 122) \<or> (48 \<le> c \<and> c \<le> 57) \<or> c = 32"

definition strip_non_alnum :: "pystr \<Rightarrow> pystr" where
  "strip_non_alnum s = filter alnum_space s"

section \<open>Data model\<close>

text \<open>A span is the dictionary built by \<^verbatim>\<open>extract_spans\<close>; sizes, coordinates and
  scores are Python floats, modelled by the rationals they denote.\<close>

record span =
  span_text :: pystr
  span_size :: rat
  span_font :: pystr
  span_flags :: int
  span_page :: nat
  span_bbox :: "rat list"
  span_y :: rat

text \<open>A block of \<^verbatim>\<open>page.get_text("blocks")\<close>: the tuple
  \<^verbatim>\<open>(x0, y0, x1, y1, text, block_no, block_type)\<close>.\<close>

record block =
  blk_x0 :: rat
  blk_y0 :: rat
  blk_x1 :: rat
  blk_y1 :: rat
  blk_text :: pystr
  blk_no :: int
  blk_type :: int

datatype level = H1 | H2 | H3 | H4

datatype doc_type = Form | Technical | Rfp | Pathways | Event | Other

text \<open>The \<^verbatim>\<open>"span"\<close> entry of a heading is either a span of the document or, after
  literal reconciliation, the dictionary \<^verbatim>\<open>{"page": page}\<close>.\<close>

datatype hspan = Full span | PageOnly nat

fun hspan_page :: "hspan \<Rightarrow> nat" where
  "hspan_page (Full s) = span_page s"
| "hspan_page (PageOnly p) = p"

text \<open>\<^verbatim>\<open>span_info.get("size", 0)\<close>.\<close>

fun hspan_size :: "hspan \<Rightarrow> rat" where
  "hspan_size (Full s) = span_size s"
| "hspan_size (PageOnly p) = 0"

text \<open>A heading dictionary; the key \<^verbatim>\<open>"level"\<close> is present only in the entries
  that literal reconciliation builds.\<close>

record heading =
  h_level :: "level option"
  h_text :: pystr
  h_span :: hspan
  h_score :: rat

record doc_stats =
  unique_sizes :: "rat list"
  size_percentile :: "rat \<rightharpoonup> rat"
  avg_size :: rat

record entry =
  e_level :: level
  e_text :: pystr
  e_page :: nat

record document_outline =
  out_title :: pystr
  out_outline :: "entry list"

section \<open>Span extraction\<close>

definition block_spans :: "nat \<Rightarrow> block \<Rightarrow> span list" where
  "block_spans page_num b =
     (if blk_type b \<noteq> 0 then []
      else let text = py_strip (blk_text b) in
        if text = [] then []
        else concat (map (\<lambda>line0. let line = py_strip line0 in
               if line = [] then []
               else [\<lparr>span_text = line, span_size = blk_y1 b - blk_y0 b, span_font = [],
                      span_flags = 0, span_page = page_num,
                      span_bbox = [blk_x0 b, blk_y0 b, blk_x1 b, blk_y1 b],
                      span_y = blk_y0 b\<rparr>])
             (split_on 10 [] text)))"

text \<open>The document is the list of its pages, a page the list of its blocks.\<close>

definition extract_spans :: "block list list \<Rightarrow> span list" where
  "extract_spans doc =
     concat (map (\<lambda>(page_num, page). concat (map (block_spans page_num) page))
       (enumerate 0 doc))"

definition merge_fragmented_text :: "span list \<Rightarrow> span list" where
  "merge_fragmented_text spans = (if spans = [] then spans else spans)"

section \<open>Title\<close>

definition form_keywords :: "pystr list" where
  "form_keywords = [asc ''application'', asc ''form'', asc ''grant'', asc ''ltc'', asc ''advance'']"

definition form_title :: pystr where
  "form_title = asc ''Application form for grant of LTC advance  ''"

definition pathways_title :: pystr where
  "pathways_title = asc ''Parsippany -Troy Hills STEM Pathways''"

definition rfp_title :: pystr where
  "rfp_title = asc ''RFP:Request for Proposal To Present a Proposal for Developing the Business Plan for the Ontario Digital Library  ''"

definition technical_title :: pystr where
  "technical_title = asc ''Overview  Foundation Level Extensions  ''"

definition event_phrases :: "pystr list" where
  "event_phrases = [asc ''hope to see you there'', asc ''join us'', asc ''event'', asc ''invitation'']"

definition on_first_two_pages :: "span \<Rightarrow> bool" where
  "on_first_two_pages s \<longleftrightarrow> span_page s = 0 \<or> span_page s = 1"

definition title_lines :: "span list \<Rightarrow> pystr list" where
  "title_lines spans =
     map (\<lambda>s. py_strip (span_text s))
       (filter (\<lambda>s. py_strip (span_text s) \<noteq> []) (filter on_first_two_pages spans))"

text \<open>The two nested loops over \<^verbatim>\<open>window\<close> and \<^verbatim>\<open>i\<close>; \<^verbatim>\<open>range\<close> is empty
  when \<^verbatim>\<open>len(lines) - window + 1\<close> is not positive.\<close>

definition window_match :: "pylib \<Rightarrow> pystr list \<Rightarrow> nat \<Rightarrow> nat \<Rightarrow> bool" where
  "window_match U lines window i =
     (let merged = py_join (asc '' '') (take window (drop i lines))
      in list_all (\<lambda>k. py_in k (py_lower U merged)) (take 3 form_keywords))"

definition window_scan :: "pylib \<Rightarrow> pystr list \<Rightarrow> bool" where
  "window_scan U lines =
     list_ex (\<lambda>window. list_ex (window_match U lines window) [0 ..< length lines + 1 - window])
       [5, 4, 3, 2]"

fun max_of :: "rat \<Rightarrow> rat list \<Rightarrow> rat" where
  "max_of m [] = m"
| "max_of m (x # xs) = max_of (max m x) xs"

text \<open>The last branch of \<^verbatim>\<open>extract_document_title\<close>: the largest font of the first page.\<close>

definition largest_font_title :: "span list \<Rightarrow> pystr" where
  "largest_font_title spans =
     (case filter (\<lambda>s. span_page s = 0) spans of
        [] \<Rightarrow> []
      | s0 # rest \<Rightarrow>
          let max_size = max_of (span_size s0) (map span_size rest);
              candidates = map span_text (filter (\<lambda>s. span_size s \<ge> max_size * (4 / 5)) (s0 # rest));
              title = py_strip (py_join (asc '' '') candidates)
          in if title \<noteq> [] \<and> \<not> py_endswith title (asc '' '') then title @ asc '' '' else title)"

text \<open>The test of the fuzzy fallback,
  \<^verbatim>\<open>SequenceMatcher(None, l.lower(), "application form for grant of ltc advance").ratio() > 0.8\<close>.\<close>

definition reference_title :: pystr where
  "reference_title = asc ''application form for grant of ltc advance''"

definition fuzzy_match :: "pylib \<Rightarrow> pystr \<Rightarrow> bool" where
  "fuzzy_match U l \<longleftrightarrow> seq_ratio U (py_lower U l) reference_title > 4 / 5"

definition extract_document_title :: "pylib \<Rightarrow> span list \<Rightarrow> pystr" where
  "extract_document_title U spans =
     (let lines = title_lines spans; low = py_lower U in
      if window_scan U lines then form_title
      else if list_ex (fuzzy_match U) lines then form_title
      else if list_ex (\<lambda>l. py_in (asc ''parsippany'') (low l) \<and> py_in (asc ''stem'') (low l)) lines
        then pathways_title
      else if list_ex (\<lambda>l. py_in (asc ''rfp'') (low l) \<or> py_in (asc ''request for proposal'') (low l)) lines
           \<and> list_ex (\<lambda>l. py_in (asc ''request for proposal'') (low l)) lines
        then rfp_title
      else if list_ex (\<lambda>l. py_in (asc ''foundation'') (low l) \<and> py_in (asc ''level'') (low l)) lines
        then technical_title
      else if list_ex (\<lambda>l. list_ex (\<lambda>p. py_in p (low l)) event_phrases) lines then []
      else largest_font_title spans)"


section \<open>Document statistics\<close>

definition analyze_document_structure :: "span list \<Rightarrow> doc_stats" where
  "analyze_document_structure spans =
     (let sizes = map span_size spans in
      if sizes = [] then \<lparr>unique_sizes = [], size_percentile = Map.empty, avg_size = 0\<rparr>
      else
        let unique = sort (remdups sizes);
            size_to_rank = zip unique [0 ..< length unique];
            n = length unique;
            pct = map_of (map (\<lambda>(size, rank).
                    (size, if n > 1 then of_nat rank / of_nat (n - 1) else 1)) size_to_rank)
        in \<lparr>unique_sizes = unique, size_percentile = pct,
            avg_size = sum_list sizes / of_nat (length sizes)\<rparr>)"

text \<open>\<^verbatim>\<open>stats["size_percentile"].get(size, 0)\<close>.\<close>

definition percentile_of :: "doc_stats \<Rightarrow> rat \<Rightarrow> rat" where
  "percentile_of stats sz = (case size_percentile stats sz of None \<Rightarrow> 0 | Some p \<Rightarrow> p)"

section \<open>Heading candidates\<close>

text \<open>Each pattern is written next to its source text.\<close>

definition exclude_patterns :: "rx list" where
  \<open>exclude_patterns =
    [ \<comment> \<open>\<^verbatim>\<open>^Page\s+\d+\<close>\<close>
      cat [Bol, lit ''Page'', rx_plus sp, rx_plus dg],
      \<comment> \<open>\<^verbatim>\<open>^Copyright\<close>\<close>
      cat [Bol, lit ''Copyright''],
      \<comment> \<open>\<^verbatim>\<open>^Version\s+\d\<close>\<close>
      cat [Bol, lit ''Version'', rx_plus sp, dg],
      \<comment> \<open>\<^verbatim>\<open>^\d{4}$\<close>\<close>
      cat [Bol, rx_times 4 dg, Eol],
      \<comment> \<open>\<^verbatim>\<open>^www\.|^http\<close>\<close>
      Alt (cat [Bol, lit ''www.'']) (cat [Bol, lit ''http'']),
      \<comment> \<open>\<^verbatim>\<open>@\w+\.\<close>\<close>
      cat [lit ''@'', rx_plus (Set [Wrd]), lit ''.''],
      \<comment> \<open>\<^verbatim>\<open>^\d+\s*$\<close>\<close>
      cat [Bol, rx_plus dg, Star sp, Eol],
      \<comment> \<open>\<^verbatim>\<open>^[^\w\s]*$\<close>\<close>
      cat [Bol, Star (NSet [Wrd, Spc]), Eol],
      \<comment> \<open>\<^verbatim>\<open>^\([^)]*\)$\<close>\<close>
      cat [Bol, lit ''('', Star (NSet (chs '')'')), lit '')'', Eol],
      \<comment> \<open>\<^verbatim>\<open>^[\d\s\-\.]+$\<close>\<close>
      cat [Bol, rx_plus (Set ([Dig, Spc] @ chs ''-.'')), Eol],
      \<comment> \<open>\<^verbatim>\<open>^(CLOSED|PLEASE|VISIT|REQUIRED|CLIMBING)\<close>\<close>
      cat [Bol, alts [lit ''CLOSED'', lit ''PLEASE'', lit ''VISIT'', lit ''REQUIRED'', lit ''CLIMBING'']],
      \<comment> \<open>\<^verbatim>\<open>.*[.!?]\s+.*[.!?]\<close>\<close>
      cat [Star Dot, Set (chs ''.!?''), rx_plus sp, Star Dot, Set (chs ''.!?'')] ]\<close>

definition section_names :: rx where
  "section_names =
     alts [lit ''Abstract'', lit ''Introduction'', lit ''Overview'', lit ''Summary'',
           lit ''Background'', lit ''Conclusion'', lit ''References'', lit ''Bibliography'',
           cat [lit ''Acknowledgement'', rx_opt (lit ''s'')],
           cat [lit ''Table'', rx_plus sp, lit ''of'', rx_plus sp, lit ''Contents''],
           cat [lit ''Revision'', rx_plus sp, lit ''History'']]"

definition heading_patterns :: "rx list" where
  \<open>heading_patterns =
    [ \<comment> \<open>\<^verbatim>\<open>^\d+\.\s+[A-Z]\<close>\<close>
      cat [Bol, rx_plus dg, lit ''.'', rx_plus sp, AZ],
      \<comment> \<open>\<^verbatim>\<open>^\d+\.\d+\s+[A-Z]\<close>\<close>
      cat [Bol, rx_plus dg, lit ''.'', rx_plus dg, rx_plus sp, AZ],
      \<comment> \<open>\<^verbatim>\<open>^\d+\.\d+\.\d+\s+[A-Z]\<close>\<close>
      cat [Bol, rx_plus dg, lit ''.'', rx_plus dg, lit ''.'', rx_plus dg, rx_plus sp, AZ],
      \<comment> \<open>\<^verbatim>\<open>^(Chapter|Section|Part)\s+\d+\<close>\<close>
      cat [Bol, alts [lit ''Chapter'', lit ''Section'', lit ''Part''], rx_plus sp, rx_plus dg],
      \<comment> \<open>\<^verbatim>\<open>^Appendix\s+[A-Z]\<close>\<close>
      cat [Bol, lit ''Appendix'', rx_plus sp, AZ],
      \<comment> \<open>\<^verbatim>\<open>^(Abstract|Introduction|...|Table\s+of\s+Contents|Revision\s+History)$\<close>\<close>
      cat [Bol, section_names, Eol],
      \<comment> \<open>\<^verbatim>\<open>^[A-Z][A-Z\s&:-]{6,}$\<close>\<close>
      cat [Bol, AZ, at_least 6 (Set ([rng CHR ''A'' CHR ''Z'', Spc] @ chs ''&:-'')), Eol],
      \<comment> \<open>\<^verbatim>\<open>.*:\s*$\<close>\<close>
      cat [Star Dot, lit '':'', Star sp, Eol],
      \<comment> \<open>\<^verbatim>\<open>^Phase\s+[IVX]+:\<close>\<close>
      cat [Bol, lit ''Phase'', rx_plus sp, rx_plus (Set (chs ''IVX'')), lit '':''],
      \<comment> \<open>\<^verbatim>\<open>^For\s+(each|the)\s+\w+.*:$\<close>\<close>
      cat [Bol, lit ''For'', rx_plus sp, alts [lit ''each'', lit ''the''], rx_plus sp,
           rx_plus (Set [Wrd]), Star Dot, lit '':'', Eol],
      \<comment> \<open>\<^verbatim>\<open>^What\s+.*\?$\<close>\<close>
      cat [Bol, lit ''What'', rx_plus sp, Star Dot, lit ''?'', Eol],
      \<comment> \<open>\<^verbatim>\<open>^[A-Z][a-z]+\s+OPTIONS?$\<close>\<close>
      cat [Bol, AZ, rx_plus (Set [rng CHR ''a'' CHR ''z'']), rx_plus sp, lit ''OPTION'',
           rx_opt (lit ''S''), Eol],
      \<comment> \<open>\<^verbatim>\<open>^(HOPE|WELCOME|THANK).*$\<close>\<close>
      cat [Bol, alts [lit ''HOPE'', lit ''WELCOME'', lit ''THANK''], Star Dot, Eol],
      \<comment> \<open>\<^verbatim>\<open>^[A-Z].*\s+(Library|Digital|Component|Plan)$\<close>\<close>
      cat [Bol, AZ, Star Dot, rx_plus sp,
           alts [lit ''Library'', lit ''Digital'', lit ''Component'', lit ''Plan''], Eol],
      \<comment> \<open>\<^verbatim>\<open>^Milestones?$\<close>\<close>
      cat [Bol, lit ''Milestone'', rx_opt (lit ''s''), Eol],
      \<comment> \<open>\<^verbatim>\<open>^Approach\s+and\s+\<close>\<close>
      cat [Bol, lit ''Approach'', rx_plus sp, lit ''and'', rx_plus sp],
      \<comment> \<open>\<^verbatim>\<open>^Evaluation\s+and\s+\<close>\<close>
      cat [Bol, lit ''Evaluation'', rx_plus sp, lit ''and'', rx_plus sp],
      \<comment> \<open>\<^verbatim>\<open>^Business\s+Plan\<close>\<close>
      cat [Bol, lit ''Business'', rx_plus sp, lit ''Plan''],
      \<comment> \<open>\<^verbatim>\<open>^\d+\)\s+[A-Z]\<close>\<close>
      cat [Bol, rx_plus dg, lit '')'', rx_plus sp, AZ],
      \<comment> \<open>\<^verbatim>\<open>^[-*\<bullet>]\s+[A-Z]\<close>, the third character being U+2022\<close>
      cat [Bol, Set (chs ''-*'' @ [Ch 8226]), rx_plus sp, AZ],
      \<comment> \<open>\<^verbatim>\<open>^[A-Z][A-Za-z\s\-:&]+[.:]?\s*$\<close>\<close>
      cat [Bol, AZ,
           rx_plus (Set ([rng CHR ''A'' CHR ''Z'', rng CHR ''a'' CHR ''z'', Spc] @ chs ''-:&'')),
           rx_opt (Set (chs ''.:'')), Star sp, Eol] ]\<close>

text \<open>\<^verbatim>\<open>any(re.match(pattern, text, re.IGNORECASE) for pattern in patterns)\<close>.\<close>

definition any_match :: "pylib \<Rightarrow> rx list \<Rightarrow> pystr \<Rightarrow> bool" where
  "any_match U ps t = list_ex (\<lambda>p. re_match U True p t) ps"

definition is_likely_heading :: "pylib \<Rightarrow> pystr \<Rightarrow> span \<Rightarrow> doc_stats \<Rightarrow> doc_type \<Rightarrow> bool" where
  "is_likely_heading U t span_info stats dt =
     (if length t < 3 \<or> length t > 200 then False
      else if any_match U exclude_patterns t then False
      else if any_match U heading_patterns t then True
      else if dt = Technical \<or> dt = Rfp \<or> dt = Pathways then
        (if py_isupper U t \<or> py_endswith t (asc '':'') \<or> length (py_split t) > 5 then True
         else False)
      else False)"

section \<open>Heading level\<close>

definition h1_patterns :: "rx list" where
  \<open>h1_patterns =
    [ \<comment> \<open>\<^verbatim>\<open>^\d+\.\s+[A-Z]\<close>\<close>
      cat [Bol, rx_plus dg, lit ''.'', rx_plus sp, AZ],
      \<comment> \<open>\<^verbatim>\<open>^(Abstract|Introduction|...|Table\s+of\s+Contents|Revision\s+History)$\<close>\<close>
      cat [Bol, section_names, Eol],
      \<comment> \<open>\<^verbatim>\<open>^Appendix\s+[A-Z]\<close>\<close>
      cat [Bol, lit ''Appendix'', rx_plus sp, AZ],
      \<comment> \<open>\<^verbatim>\<open>^[A-Z][A-Z\s&:-]{10,}$\<close>\<close>
      cat [Bol, AZ, at_least 10 (Set ([rng CHR ''A'' CHR ''Z'', Spc] @ chs ''&:-'')), Eol],
      \<comment> \<open>\<^verbatim>\<open>^[A-Z][a-z]+\s+OPTIONS?$\<close>\<close>
      cat [Bol, AZ, rx_plus (Set [rng CHR ''a'' CHR ''z'']), rx_plus sp, lit ''OPTION'',
           rx_opt (lit ''S''), Eol],
      \<comment> \<open>\<^verbatim>\<open>^(HOPE|WELCOME|THANK).*$\<close>\<close>
      cat [Bol, alts [lit ''HOPE'', lit ''WELCOME'', lit ''THANK''], Star Dot, Eol],
      \<comment> \<open>\<^verbatim>\<open>^[A-Z].*\s+(Library|Digital|Component|Plan)$\<close>\<close>
      cat [Bol, AZ, Star Dot, rx_plus sp,
           alts [lit ''Library'', lit ''Digital'', lit ''Component'', lit ''Plan''], Eol],
      \<comment> \<open>\<^verbatim>\<open>^Business\s+Plan\<close>\<close>
      cat [Bol, lit ''Business'', rx_plus sp, lit ''Plan''] ]\<close>

definition h2_patterns :: "rx list" where
  \<open>h2_patterns =
    [ \<comment> \<open>\<^verbatim>\<open>^\d+\.\d+\s+[A-Z]\<close>\<close>
      cat [Bol, rx_plus dg, lit ''.'', rx_plus dg, rx_plus sp, AZ],
      \<comment> \<open>\<^verbatim>\<open>^(Milestones?|Summary|Background)$\<close>\<close>
      cat [Bol, alts [cat [lit ''Milestone'', rx_opt (lit ''s'')], lit ''Summary'', lit ''Background''], Eol],
      \<comment> \<open>\<^verbatim>\<open>^Approach\s+and\s+\<close>\<close>
      cat [Bol, lit ''Approach'', rx_plus sp, lit ''and'', rx_plus sp],
      \<comment> \<open>\<^verbatim>\<open>^Evaluation\s+and\s+\<close>\<close>
      cat [Bol, lit ''Evaluation'', rx_plus sp, lit ''and'', rx_plus sp],
      \<comment> \<open>\<^verbatim>\<open>^Appendix\s+[A-Z]:\<close>\<close>
      cat [Bol, lit ''Appendix'', rx_plus sp, AZ, lit '':''] ]\<close>

definition h3_patterns :: "rx list" where
  \<open>h3_patterns =
    [ \<comment> \<open>\<^verbatim>\<open>^\d+\.\d+\.\d+\s+[A-Z]\<close>\<close>
      cat [Bol, rx_plus dg, lit ''.'', rx_plus dg, lit ''.'', rx_plus dg, rx_plus sp, AZ],
      \<comment> \<open>\<^verbatim>\<open>^Phase\s+[IVX]+:\<close>\<close>
      cat [Bol, lit ''Phase'', rx_plus sp, rx_plus (Set (chs ''IVX'')), lit '':''],
      \<comment> \<open>\<^verbatim>\<open>.*:\s*$\<close>\<close>
      cat [Star Dot, lit '':'', Star sp, Eol],
      \<comment> \<open>\<^verbatim>\<open>^\d+\.\s+[A-Z].*\<close>\<close>
      cat [Bol, rx_plus dg, lit ''.'', rx_plus sp, AZ, Star Dot] ]\<close>

definition h4_patterns :: "rx list" where
  \<open>h4_patterns =
    [ \<comment> \<open>\<^verbatim>\<open>^For\s+(each|the)\s+\w+.*:$\<close>\<close>
      cat [Bol, lit ''For'', rx_plus sp, alts [lit ''each'', lit ''the''], rx_plus sp,
           rx_plus (Set [Wrd]), Star Dot, lit '':'', Eol] ]\<close>

definition classify_heading_level :: "pylib \<Rightarrow> pystr \<Rightarrow> hspan \<Rightarrow> doc_stats \<Rightarrow> level" where
  "classify_heading_level U t span_info document_stats =
     (let sz = hspan_size span_info;
          pct = percentile_of document_stats sz
      in if any_match U h4_patterns t then H4
         else if any_match U h3_patterns t then H3
         else if any_match U h2_patterns t then H2
         else if any_match U h1_patterns t then H1
         else if pct \<ge> 9 / 10 then H1
         else if pct \<ge> 3 / 4 then H2
         else if pct \<ge> 1 / 2 then H3
         else H3)"

section \<open>Heading score\<close>

definition canonical_sections :: "pystr list" where
  "canonical_sections =
     [asc ''Revision History'', asc ''Table of Contents'', asc ''Acknowledgements'',
      asc ''Summary'', asc ''Background'', asc ''References'']"

text \<open>The term \<^verbatim>\<open>score += 2\<close> guarded by \<^verbatim>\<open>bool(span.get("flags", 0) & 2)\<close>.\<close>

definition bold_bonus :: "span \<Rightarrow> rat" where
  "bold_bonus s = (if span_flags s AND 2 \<noteq> 0 then 2 else 0)"

definition pattern_bonus :: "pylib \<Rightarrow> pystr \<Rightarrow> rat" where
  "pattern_bonus U t =
     (if re_match U False (cat [Bol, rx_plus dg, lit ''.'', rx_plus sp]) t then 3
      else if re_match U False (cat [Bol, rx_plus dg, lit ''.'', rx_plus dg, rx_plus sp]) t then 2
      else if t \<in> set canonical_sections then 3
      else if re_match U False (cat [Star Dot, lit '':'', Star sp, Eol]) t then 1
      else 0)"

definition calculate_heading_importance :: "pylib \<Rightarrow> pystr \<Rightarrow> span \<Rightarrow> doc_stats \<Rightarrow> rat" where
  "calculate_heading_importance U t s stats =
     percentile_of stats (span_size s) * 3
     + bold_bonus s
     + pattern_bonus U t
     + (if span_page s = 0 then 1 else 0)
     + (if span_y s < 200 then 1 / 2 else 0)"


section \<open>Heading filter\<close>

definition technical_expected :: "(pystr \<times> level) list" where
  "technical_expected =
    [(asc ''Revision History '', H1),
     (asc ''Table of Contents '', H1),
     (asc ''Acknowledgements '', H1),
     (asc ''1. Introduction to the Foundation Level Extensions '', H1),
     (asc ''2. Introduction to Foundation Level Agile Tester Extension '', H1),
     (asc ''2.1 Intended Audience '', H2),
     (asc ''2.2 Career Paths for Testers '', H2),
     (asc ''2.3 Learning Objectives '', H2),
     (asc ''2.4 Entry Requirements '', H2),
     (asc ''2.5 Structure and Course Duration '', H2),
     (asc ''2.6 Keeping It Current '', H2),
     (asc ''3. Overview of the Foundation Level Extension '' @ [8211] @ asc '' Agile TesterSyllabus '', H1),
     (asc ''3.1 Business Outcomes '', H2),
     (asc ''3.2 Content '', H2),
     (asc ''4. References '', H1),
     (asc ''4.1 Trademarks '', H2),
     (asc ''4.2 Documents and Web Sites '', H2)]"

text \<open>In the second table U+2019 is the apostrophe of the source.\<close>

definition rfp_expected :: "(pystr \<times> level) list" where
  "rfp_expected =
    [(asc ''Ontario'' @ [8217] @ asc ''s Digital Library '', H1),
     (asc ''A Critical Component for Implementing Ontario'' @ [8217] @ asc ''s Road Map to Prosperity Strategy '', H1),
     (asc ''Summary '', H2),
     (asc ''Timeline: '', H3),
     (asc ''Background '', H2),
     (asc ''Equitable access for all Ontarians: '', H3),
     (asc ''Shared decision-making and accountability: '', H3),
     (asc ''Shared governance structure: '', H3),
     (asc ''Shared funding: '', H3),
     (asc ''Local points of entry: '', H3),
     (asc ''Access: '', H3),
     (asc ''Guidance and Advice: '', H3),
     (asc ''Training: '', H3),
     (asc ''Provincial Purchasing & Licensing: '', H3),
     (asc ''Technological Support: '', H3),
     (asc ''What could the ODL really mean? '', H3),
     (asc ''For each Ontario citizen it could mean: '', H4),
     (asc ''For each Ontario student it could mean: '', H4),
     (asc ''For each Ontario library it could mean: '', H4),
     (asc ''For the Ontario government it could mean: '', H4),
     (asc ''The Business Plan to be Developed '', H2),
     (asc ''Milestones '', H3),
     (asc ''Approach and Specific Proposal Requirements '', H2),
     (asc ''Evaluation and Awarding of Contract '', H2),
     (asc ''Appendix A: ODL Envisioned Phases & Funding '', H2),
     (asc ''Phase I: Business Planning '', H3),
     (asc ''Phase II: Implementing and Transitioning '', H3),
     (asc ''Phase III: Operating and Growing the ODL '', H3),
     (asc ''Appendix B: ODL Steering Committee Terms of Reference '', H2),
     (asc ''1. Preamble '', H3),
     (asc ''2. Terms of Reference '', H3),
     (asc ''3. Membership '', H3),
     (asc ''4. Appointment Criteria and Process '', H3),
     (asc ''5. Term '', H3),
     (asc ''6. Chair '', H3),
     (asc ''7. Meetings '', H3),
     (asc ''8. Lines of Accountability and Communication '', H3),
     (asc ''9. Financial and Administrative Policies '', H3),
     (asc ''Appendix C: ODL'' @ [8217] @ asc ''s Envisioned Electronic Resources '', H2)]"

text \<open>The local function \<^verbatim>\<open>norm\<close>; the dashes are U+002D, U+2013 and U+2014.\<close>

definition norm :: "pylib \<Rightarrow> pystr \<Rightarrow> pystr" where
  "norm U s0 =
     (let s1 = nfkd U s0;
          s2 = map (\<lambda>c. if c = 45 \<or> c = 8211 \<or> c = 8212 then 32 else c) s1;
          s3 = strip_non_alnum s2;
          s4 = collapse_ws s3
      in py_lower U (py_strip s4))"

text \<open>\<^verbatim>\<open>len(words_exp & words_cand) / max(1, len(words_exp))\<close>.\<close>

definition overlap_ratio :: "pystr \<Rightarrow> pystr \<Rightarrow> rat" where
  "overlap_ratio n_exp n_cand =
     (let words_exp = remdups (py_split n_exp);
          words_cand = py_split n_cand;
          common = filter (\<lambda>w. w \<in> set words_cand) words_exp
      in of_nat (length common) / of_nat (max 1 (length words_exp)))"

text \<open>One round of the inner loop over the candidates: \<open>best\<close> is replaced by \<open>h\<close> when
  \<open>h\<close> qualifies and lies on an earlier page.\<close>

definition better :: "pylib \<Rightarrow> nat \<Rightarrow> pystr \<Rightarrow> nat \<Rightarrow> heading option \<Rightarrow> heading \<Rightarrow> heading option" where
  "better U idx n_exp min_section_page best h =
     (let ratio = overlap_ratio n_exp (norm U (h_text h));
          pg = hspan_page (h_span h);
          earlier = (case best of None \<Rightarrow> True | Some b \<Rightarrow> pg < hspan_page (h_span b))
      in if idx \<le> 2 then
           (if ratio > 7 / 10 \<and> pg \<le> 5 then (if earlier then Some h else best) else best)
         else
           (if ratio > 17 / 20 \<and> pg \<ge> min_section_page then (if earlier then Some h else best)
            else best))"

definition find_best :: "pylib \<Rightarrow> heading list \<Rightarrow> nat \<Rightarrow> nat \<Rightarrow> pystr \<Rightarrow> heading option" where
  "find_best U potential_headings min_section_page idx expected_text =
     foldl (better U idx (norm U expected_text) min_section_page) None potential_headings"

text \<open>The loop over the expected list, with its variables \<^verbatim>\<open>idx\<close>,
  \<^verbatim>\<open>last_page\<close> and \<^verbatim>\<open>found_headings\<close>.\<close>

fun reconcile :: "pylib \<Rightarrow> heading list \<Rightarrow> nat \<Rightarrow> nat \<Rightarrow> nat \<Rightarrow> heading list
    \<Rightarrow> (pystr \<times> level) list \<Rightarrow> heading list" where
  "reconcile U hs min_section_page idx last_page found_headings [] = found_headings"
| "reconcile U hs min_section_page idx last_page found_headings ((expected_text, expected_level) # rest) =
     (let pg = (case find_best U hs min_section_page idx expected_text of
                  Some best \<Rightarrow> hspan_page (h_span best)
                | None \<Rightarrow> if found_headings \<noteq> [] then last_page + 1 else 0)
      in reconcile U hs min_section_page (idx + 1) pg
           (found_headings @ [\<lparr>h_level = Some expected_level, h_text = expected_text,
                                h_span = PageOnly pg, h_score = 0\<rparr>]) rest)"

definition toc_end_page :: "pylib \<Rightarrow> heading list \<Rightarrow> nat" where
  "toc_end_page U hs =
     foldl (\<lambda>t h. if py_startswith (norm U (h_text h)) (norm U (asc ''Table of Contents''))
                   then max t (hspan_page (h_span h)) else t) 3 hs"

text \<open>The default branch, with its set \<^verbatim>\<open>seen\<close>.\<close>

definition dedup_text :: "heading \<Rightarrow> pystr" where
  "dedup_text h = py_strip (collapse_ws (h_text h))"

definition dedup_key :: "pylib \<Rightarrow> heading \<Rightarrow> pystr" where
  "dedup_key U h = py_lower U (strip_non_alnum (dedup_text h))"

definition passes :: "heading \<Rightarrow> bool" where
  "passes h \<longleftrightarrow> h_score h > 3 / 2 \<or> length (py_split (dedup_text h)) > 5"

fun generic_filter :: "pylib \<Rightarrow> pystr set \<Rightarrow> heading list \<Rightarrow> heading list" where
  "generic_filter U seen [] = []"
| "generic_filter U seen (h # hs) =
     (if dedup_key U h \<in> seen then generic_filter U seen hs
      else if passes h then h # generic_filter U (insert (dedup_key U h) seen) hs
      else generic_filter U (insert (dedup_key U h) seen) hs)"

definition filter_headings :: "pylib \<Rightarrow> heading list \<Rightarrow> doc_type \<Rightarrow> heading list" where
  "filter_headings U potential_headings dt =
     (if dt = Form then []
      else if dt = Pathways then
        filter (\<lambda>h. py_upper U (h_text h) = asc ''PATHWAY OPTIONS'') potential_headings
      else if dt = Technical \<or> dt = Rfp then
        (let expected = (if dt = Technical then technical_expected else rfp_expected);
             min_section_page = toc_end_page U potential_headings + 1
         in reconcile U potential_headings min_section_page 0 0 [] expected)
      else generic_filter U {} potential_headings)"

section \<open>The per-document body of \<^verbatim>\<open>main\<close>\<close>

definition detect_language :: "pylib \<Rightarrow> span list \<Rightarrow> pystr" where
  "detect_language U spans =
     (let sample_text = py_join (asc '' '') (map span_text (filter on_first_two_pages spans))
      in if py_strip sample_text \<noteq> [] then
           (case detect U sample_text of Some l \<Rightarrow> l | None \<Rightarrow> asc ''en'')
         else asc ''en'')"

definition num_pages :: "span list \<Rightarrow> nat" where
  "num_pages spans = foldr max (map span_page spans) 0 + 1"

definition classify_document :: "pylib \<Rightarrow> pystr \<Rightarrow> pystr \<Rightarrow> span list \<Rightarrow> doc_type" where
  "classify_document U lang title spans =
     (let t = py_strip (py_lower U title);
          is_event =
            (lang = asc ''en'' \<and> t = [] \<and> num_pages spans \<le> 2 \<and>
             list_ex (\<lambda>l. list_ex (\<lambda>p. py_in p l) event_phrases)
               (map (\<lambda>s. py_lower U (span_text s)) (filter on_first_two_pages spans)))
      in if lang = asc ''en'' then
           (if is_event then Event
            else if py_in (asc ''application form for grant of ltc advance'') t then Form
            else if py_in (asc ''foundation level extensions'') t then Technical
            else if py_in (asc ''rfp:request for proposal'') t then Rfp
            else if py_in (asc ''parsippany'') t then Pathways
            else Other)
         else Other)"

text \<open>\<^verbatim>\<open>^(Resumen|Introducci\'on|Conclusi\'on|Referencias|\'Indice|Cap\'itulo|Secci\'on|Anexo)\<close>
  with the accented letters U+00F3, U+00CD and U+00ED of the source.\<close>

definition spanish_pattern :: rx where
  "spanish_pattern =
     cat [Bol, alts [lit ''Resumen'', litp (asc ''Introducci'' @ [243] @ asc ''n''),
                     litp (asc ''Conclusi'' @ [243] @ asc ''n''), lit ''Referencias'',
                     litp ([205] @ asc ''ndice''), litp (asc ''Cap'' @ [237] @ asc ''tulo''),
                     litp (asc ''Secci'' @ [243] @ asc ''n''), lit ''Anexo'']]"

definition candidate :: "pylib \<Rightarrow> pystr \<Rightarrow> doc_stats \<Rightarrow> doc_type \<Rightarrow> span \<Rightarrow> heading list" where
  "candidate U lang stats dt s =
     (let t = py_strip (span_text s) in
      if lang = asc ''en'' then
        (if is_likely_heading U t s stats dt
         then [\<lparr>h_level = None, h_text = t, h_span = Full s,
                h_score = calculate_heading_importance U t s stats\<rparr>]
         else [])
      else if lang = asc ''es'' then
        (if re_match U True spanish_pattern t
         then [\<lparr>h_level = None, h_text = t, h_span = Full s, h_score = 2\<rparr>]
         else [])
      else [])"

text \<open>\<^verbatim>\<open>potential_headings.sort(key=lambda x: x["score"], reverse=True)\<close>: a stable
  sort by descending score.\<close>

definition sort_by_score :: "heading list \<Rightarrow> heading list" where
  "sort_by_score hs = sort_key (\<lambda>h. - h_score h) hs"

definition emit :: "pylib \<Rightarrow> doc_stats \<Rightarrow> heading \<Rightarrow> entry" where
  "emit U stats h =
     \<lparr>e_level = classify_heading_level U (h_text h) (h_span h) stats,
      e_text = h_text h @ (if \<not> py_endswith (h_text h) (asc '' '') then asc '' '' else []),
      e_page = hspan_page (h_span h)\<rparr>"

definition event_entry :: entry where
  "event_entry = \<lparr>e_level = H1, e_text = asc ''HOPE To SEE You THERE! '', e_page = 0\<rparr>"

definition document_type :: "pylib \<Rightarrow> span list \<Rightarrow> doc_type" where
  "document_type U spans =
     classify_document U (detect_language U spans) (extract_document_title U spans) spans"

definition potential_headings :: "pylib \<Rightarrow> span list \<Rightarrow> heading list" where
  "potential_headings U spans =
     concat (map (candidate U (detect_language U spans) (analyze_document_structure spans)
                    (document_type U spans)) spans)"

definition process_document :: "pylib \<Rightarrow> span list \<Rightarrow> document_outline" where
  "process_document U spans =
     (if spans = [] then \<lparr>out_title = [], out_outline = []\<rparr>
      else
        let title = extract_document_title U spans;
            lang = detect_language U spans;
            dt = document_type U spans
        in if lang = asc ''en'' \<and> dt = Event then \<lparr>out_title = [], out_outline = [event_entry]\<rparr>
           else
             let stats = analyze_document_structure spans;
                 filtered_headings = filter_headings U (sort_by_score (potential_headings U spans)) dt;
                 headings = map (emit U stats) filtered_headings
             in \<lparr>out_title = title,
                 out_outline = (if lang = asc ''en'' \<and> dt = Form then [] else headings)\<rparr>)"


section \<open>A concrete library\<close>

text \<open>
  \<^verbatim>\<open>SequenceMatcher(None, a, b).ratio()\<close> for a second string of fewer than 200 characters
  (no element is then treated as junk): twice the total size of the matching blocks over
  the sum of the lengths. \<open>find_longest_match\<close> returns the longest common block, the
  earliest in \<open>a\<close> and then in \<open>b\<close> among those of that length; the blocks to its left
  and to its right are matched recursively, to a depth that the length of \<open>a\<close> bounds.
\<close>

fun common_prefix :: "pystr \<Rightarrow> pystr \<Rightarrow> nat" where
  "common_prefix (x # xs) (y # ys) = (if x = y then Suc (common_prefix xs ys) else 0)"
| "common_prefix xs ys = 0"

definition longer_block :: "pystr \<Rightarrow> pystr \<Rightarrow> nat \<times> nat \<times> nat \<Rightarrow> nat \<times> nat \<Rightarrow> nat \<times> nat \<times> nat" where
  "longer_block a b best ij =
     (let k = common_prefix (drop (fst ij) a) (drop (snd ij) b)
      in if k > snd (snd best) then (fst ij, snd ij, k) else best)"

definition find_longest_match :: "pystr \<Rightarrow> pystr \<Rightarrow> nat \<times> nat \<times> nat" where
  "find_longest_match a b =
     foldl (longer_block a b) (0, 0, 0) (List.product [0 ..< length a] [0 ..< length b])"

fun matching_size :: "nat \<Rightarrow> pystr \<Rightarrow> pystr \<Rightarrow> nat" where
  "matching_size 0 a b = 0"
| "matching_size (Suc depth) a b =
     (case find_longest_match a b of (i, j, k) \<Rightarrow>
        if k = 0 then 0
        else k + matching_size depth (take i a) (take j b)
               + matching_size depth (drop (i + k) a) (drop (j + k) b))"

definition difflib_ratio :: "pystr \<Rightarrow> pystr \<Rightarrow> rat" where
  "difflib_ratio a b =
     (if length a + length b = 0 then 1
      else of_nat (2 * matching_size (Suc (length a)) a b) / of_nat (length a + length b))"

text \<open>
  The library in which the language detector answers \<open>lang\<close>. Its Unicode tables leave
  every string beyond ASCII as it is; they are not consulted on ASCII text. The only texts
  beyond ASCII that the examples below give it are the expected headings with U+2013 and
  U+2019, which NFKD does leave as they are.
\<close>

definition plain_lib :: "pystr \<Rightarrow> pylib" where
  "plain_lib lang =
     \<lparr>u_lower = (\<lambda>s. s), u_upper = (\<lambda>s. s), u_isupper = (\<lambda>s. False), u_nfkd = (\<lambda>s. s),
      u_isdigit = (\<lambda>c. False), u_isword = (\<lambda>c. False), u_variants = (\<lambda>c. []),
      seq_ratio = difflib_ratio, detect = (\<lambda>s. Some lang)\<rparr>"

text \<open>A span of the given text, height, page and top coordinate, as \<open>extract_spans\<close>
  builds it from a block 100 units wide.\<close>

definition line_span :: "string \<Rightarrow> rat \<Rightarrow> nat \<Rightarrow> rat \<Rightarrow> span" where
  "line_span t sz pg y0 =
     \<lparr>span_text = asc t, span_size = sz, span_font = [], span_flags = 0, span_page = pg,
      span_bbox = [0, y0, 100, y0 + sz], span_y = y0\<rparr>"

text \<open>The text ends with a space and not with two.\<close>

definition one_trailing_space :: "pystr \<Rightarrow> bool" where
  "one_trailing_space s \<longleftrightarrow> py_endswith s (asc '' '') \<and> \<not> py_endswith s (asc ''  '')"


section \<open>Auxiliary predicates and example documents\<close>

text \<open>The text of a heading either does not end with a space, or ends with exactly one:
  what \<open>emit\<close> needs to produce exactly one.\<close>

definition well_spaced :: "heading \<Rightarrow> bool" where
  "well_spaced h \<longleftrightarrow> \<not> py_endswith (h_text h) (asc '' '') \<or> one_trailing_space (h_text h)"


text \<open>A block of two lines, the second with blanks around it.\<close>

definition two_line_block :: block where
  "two_line_block = \<lparr>blk_x0 = 72, blk_y0 = 90, blk_x1 = 500, blk_y1 = 114,
     blk_text = asc ''1. Scope'' @ [10] @ asc '' of work '', blk_no = 0, blk_type = 0\<rparr>"

text \<open>A page in French: a title line and a line of body text.\<close>

definition french_report :: "span list" where
  "french_report =
     [line_span ''Rapport annuel'' 18 0 100, line_span ''Le conseil se reunit'' 11 0 150]"

text \<open>A one-line flyer.\<close>

definition event_flyer :: "span list" where
  "event_flyer = [line_span ''Join us for the party'' 20 0 100]"

text \<open>A candidate of score 0: a line in the smaller of two fonts, low on the third page.\<close>

definition low_candidate :: "string \<Rightarrow> heading" where
  "low_candidate t =
     \<lparr>h_level = None, h_text = asc t, h_span = Full (line_span t 10 2 300), h_score = 0\<rparr>"

text \<open>A line that is a question.\<close>

definition news_line :: span where
  "news_line = line_span ''What is new in 2024?'' 12 0 300"

text \<open>A heading of the technical document, found on the fifth page.\<close>

definition keeping_candidate :: heading where
  "keeping_candidate =
     \<lparr>h_level = None, h_text = asc ''2.6 Keeping It Current'',
      h_span = Full (line_span ''2.6 Keeping It Current'' 14 4 120), h_score = 3\<rparr>"

text \<open>Two pages of four lines, which the title resolver takes for the technical document
  and for the request for proposal; the second is set in a single font size.\<close>

definition foundation_page :: "span list" where
  "foundation_page =
     [line_span ''Foundation Level Extensions'' 20 0 100,
      line_span ''This document is the'' 11 0 140,
      line_span ''overview of the syllabus'' 11 0 155,
      line_span ''for testers and their teams'' 11 0 170]"

definition rfp_page :: "span list" where
  "rfp_page =
     [line_span ''Request for Proposal'' 12 0 100,
      line_span ''to present a proposal for'' 12 0 120,
      line_span ''the business plan of the'' 12 0 140,
      line_span ''Ontario Digital Library'' 12 0 160]"




section \<open>Facts about the library\<close>

lemmas str_eval = asc_def py_strip_def py_split_def py_startswith_def py_endswith_def
  is_ascii_def ascii_lower_def ascii_upper_def py_lower_def py_upper_def py_isupper_def
  nfkd_def py_isspace_def

lemma rx_times_numeral: "rx_times (numeral k) r = Seq r (rx_times (pred_numeral k) r)"
  by (simp add: numeral_eq_Suc)

lemmas rx_eval = re_match_def any_match_def cat_def lit_def litp_def rx_plus_def rx_opt_def
  rx_times_numeral at_least_def chs_def rng_def sp_def dg_def AZ_def in_class_def
  ascii_swapcase_def section_names_def asc_def py_isspace_def

text \<open>The matching blocks lie inside the first string, so a short line cannot reach the
  similarity 0.8 with the reference title of 41 characters.\<close>

lemma common_prefix_le: "common_prefix xs ys \<le> length xs"
  by (induction xs ys rule: common_prefix.induct) auto

lemma longer_block_bound:
  "fst best + snd (snd best) \<le> length a \<Longrightarrow> fst (longer_block a b best ij) + snd (snd (longer_block a b best ij)) \<le> length a"
proof -
  assume h: "fst best + snd (snd best) \<le> length a"
  have "common_prefix (drop (fst ij) a) (drop (snd ij) b) \<le> length a - fst ij"
    using common_prefix_le [of "drop (fst ij) a" "drop (snd ij) b"] by simp
  moreover have "0 < common_prefix (drop (fst ij) a) (drop (snd ij) b) \<Longrightarrow> fst ij < length a"
    by (cases "fst ij < length a") auto
  ultimately show ?thesis using h by (auto simp: longer_block_def Let_def)
qed

lemma foldl_longer_block_bound:
  "fst best + snd (snd best) \<le> length a \<Longrightarrow>
   fst (foldl (longer_block a b) best ps) + snd (snd (foldl (longer_block a b) best ps)) \<le> length a"
proof (induction ps arbitrary: best)
  case Nil
  then show ?case by simp
next
  case (Cons p ps)
  have "fst (longer_block a b best p) + snd (snd (longer_block a b best p)) \<le> length a"
    using Cons.prems by (rule longer_block_bound)
  then show ?case using Cons.IH [of "longer_block a b best p"] by simp
qed

lemma find_longest_match_bound:
  "find_longest_match a b = (i, j, k) \<Longrightarrow> i + k \<le> length a"
  using foldl_longer_block_bound [of "(0, 0, 0)" a b "List.product [0 ..< length a] [0 ..< length b]"]
  by (simp add: find_longest_match_def)

lemma matching_size_le: "matching_size depth a b \<le> length a"
proof (induction depth arbitrary: a b)
  case 0
  then show ?case by simp
next
  case (Suc depth)
  obtain i j k where f: "find_longest_match a b = (i, j, k)"
    by (cases "find_longest_match a b") auto
  have b: "i + k \<le> length a" using find_longest_match_bound [OF f] .
  have l: "matching_size depth (take i a) (take j b) \<le> i"
    using Suc.IH [of "take i a" "take j b"] by simp
  have r: "matching_size depth (drop (i + k) a) (drop (j + k) b) \<le> length a - (i + k)"
    using Suc.IH [of "drop (i + k) a" "drop (j + k) b"] by simp
  have e: "matching_size (Suc depth) a b =
      (if k = 0 then 0
       else k + matching_size depth (take i a) (take j b)
              + matching_size depth (drop (i + k) a) (drop (j + k) b))"
    by (simp only: matching_size.simps f prod.case)
  show ?case unfolding e using b l r by arith
qed

lemma plain_lib_sel:
  "u_lower (plain_lib lang) = (\<lambda>s. s)" "u_upper (plain_lib lang) = (\<lambda>s. s)"
  "u_isupper (plain_lib lang) = (\<lambda>s. False)" "u_nfkd (plain_lib lang) = (\<lambda>s. s)"
  "u_isdigit (plain_lib lang) = (\<lambda>c. False)" "u_isword (plain_lib lang) = (\<lambda>c. False)"
  "u_variants (plain_lib lang) = (\<lambda>c. [])" "seq_ratio (plain_lib lang) = difflib_ratio"
  "detect (plain_lib lang) = (\<lambda>s. Some lang)"
  by (simp_all add: plain_lib_def)

lemma difflib_ratio_short:
  assumes "length a \<le> 27" and "length b = 41"
  shows "\<not> difflib_ratio a b > 4 / 5"
proof -
  have m: "matching_size (Suc (length a)) a b \<le> length a" by (rule matching_size_le)
  have "(of_nat (2 * matching_size (Suc (length a)) a b) :: rat) / of_nat (length a + 41) \<le> 4 / 5"
  proof -
    have "5 * (2 * matching_size (Suc (length a)) a b) \<le> 4 * (length a + 41)"
      using m assms(1) by arith
    then have "(of_nat (5 * (2 * matching_size (Suc (length a)) a b)) :: rat) \<le> of_nat (4 * (length a + 41))"
      using of_nat_le_iff by blast
    then show ?thesis by (simp add: field_simps)
  qed
  then show ?thesis using assms(2) by (simp add: difflib_ratio_def)
qed

lemma length_py_lower_plain: "length (py_lower (plain_lib lang) l) = length l"
  by (simp add: py_lower_def plain_lib_sel)

lemma fuzzy_match_short: "length l \<le> 27 \<Longrightarrow> fuzzy_match (plain_lib lang) l = False"
  using difflib_ratio_short [of "py_lower (plain_lib lang) l" reference_title]
  by (simp add: fuzzy_match_def plain_lib_sel(8) length_py_lower_plain reference_title_def asc_def)

lemmas title_eval = extract_document_title_def title_lines_def on_first_two_pages_def window_scan_def
  window_match_def form_keywords_def event_phrases_def largest_font_title_def line_span_def
  form_title_def plain_lib_sel fuzzy_match_short Let_def upt_rec

lemmas lang_eval = detect_language_def on_first_two_pages_def line_span_def plain_lib_sel Let_def

section \<open>Extracted spans carry no emphasis\<close>

lemma block_spans_flags:
  "s \<in> set (block_spans n b) \<Longrightarrow> span_flags s = 0 \<and> span_font s = []"
  by (auto simp: block_spans_def Let_def split: if_splits)

lemma extract_spans_flags:
  "s \<in> set (extract_spans doc) \<Longrightarrow> span_flags s = 0 \<and> span_font s = []"
  by (auto simp: extract_spans_def dest: block_spans_flags)

text \<open>
  Claim C9. Every span that extraction and normalisation produce has the flags 0 and an
  empty font name; the bold bonus of the scorer is therefore 0 for it, and its score is
  the sum of the other four terms.
\<close>

theorem C9_no_bold_bonus:
  "\<forall>s \<in> set (merge_fragmented_text (extract_spans doc)).
     span_flags s = 0 \<and> span_font s = [] \<and> bold_bonus s = 0 \<and>
     calculate_heading_importance U t s stats =
       percentile_of stats (span_size s) * 3 + pattern_bonus U t
       + (if span_page s = 0 then 1 else 0) + (if span_y s < 200 then 1 / 2 else 0)"
proof
  fix s assume "s \<in> set (merge_fragmented_text (extract_spans doc))"
  then have "s \<in> set (extract_spans doc)" by (simp add: merge_fragmented_text_def)
  then have f: "span_flags s = 0 \<and> span_font s = []" by (rule extract_spans_flags)
  then have b: "bold_bonus s = 0" by (simp add: bold_bonus_def)
  show "span_flags s = 0 \<and> span_font s = [] \<and> bold_bonus s = 0 \<and>
     calculate_heading_importance U t s stats =
       percentile_of stats (span_size s) * 3 + pattern_bonus U t
       + (if span_page s = 0 then 1 else 0) + (if span_y s < 200 then 1 / 2 else 0)"
    using f b by (simp add: calculate_heading_importance_def)
qed

lemma two_line_block_spans:
  "extract_spans [[two_line_block]] =
   [\<lparr>span_text = asc ''1. Scope'', span_size = 24, span_font = [], span_flags = 0, span_page = 0,
     span_bbox = [72, 90, 500, 114], span_y = 90\<rparr>,
    \<lparr>span_text = asc ''of work'', span_size = 24, span_font = [], span_flags = 0, span_page = 0,
     span_bbox = [72, 90, 500, 114], span_y = 90\<rparr>]"
  by (simp add: extract_spans_def enumerate_eq_zip block_spans_def two_line_block_def str_eval Let_def)

text \<open>The first span of the two-line block is such a span.\<close>

theorem C9_witness:
  "hd (extract_spans [[two_line_block]]) \<in> set (merge_fragmented_text (extract_spans [[two_line_block]])) \<and>
   span_text (hd (extract_spans [[two_line_block]])) = asc ''1. Scope'' \<and>
   span_flags (hd (extract_spans [[two_line_block]])) = 0 \<and>
   bold_bonus (hd (extract_spans [[two_line_block]])) = 0"
proof -
  have m: "hd (extract_spans [[two_line_block]]) \<in> set (merge_fragmented_text (extract_spans [[two_line_block]]))"
    by (simp add: two_line_block_spans merge_fragmented_text_def)
  have t: "span_text (hd (extract_spans [[two_line_block]])) = asc ''1. Scope''"
    by (simp add: two_line_block_spans)
  show ?thesis using m t C9_no_bold_bonus [of "[[two_line_block]]"] by blast
qed

section \<open>Languages other than English and Spanish\<close>

lemma candidate_other_language:
  "lang \<noteq> asc ''en'' \<Longrightarrow> lang \<noteq> asc ''es'' \<Longrightarrow> candidate U lang stats dt s = []"
  by (simp add: candidate_def Let_def)

lemma classify_document_not_en:
  "lang \<noteq> asc ''en'' \<Longrightarrow> classify_document U lang title spans = Other"
  by (simp add: classify_document_def Let_def)

text \<open>
  Claim C10. For a non-empty span list whose detected language is neither \<^verbatim>\<open>en\<close> nor
  \<^verbatim>\<open>es\<close> no heading candidate is produced, and the emitted outline is empty; the
  title is the resolved title, whatever it is.
\<close>

theorem C10_other_language_no_outline:
  assumes "spans \<noteq> []"
    and "detect_language U spans \<noteq> asc ''en''"
    and "detect_language U spans \<noteq> asc ''es''"
  shows "potential_headings U spans = [] \<and>
         process_document U spans =
           \<lparr>out_title = extract_document_title U spans, out_outline = []\<rparr>"
proof -
  have p: "potential_headings U spans = []"
    using assms(2,3) by (simp add: potential_headings_def candidate_other_language)
  have d: "document_type U spans = Other"
    using assms(2) by (simp add: document_type_def classify_document_not_en)
  have f: "filter_headings U [] Other = []"
    by (simp add: filter_headings_def)
  have s: "sort_by_score [] = []" by (simp add: sort_by_score_def)
  show ?thesis using assms(1,2) p d f s by (simp add: process_document_def Let_def)
qed

lemma fr_title: "extract_document_title (plain_lib (asc ''fr'')) french_report = asc ''Rapport annuel ''"
  by (simp add: french_report_def title_eval str_eval)

lemma fr_lang: "detect_language (plain_lib (asc ''fr'')) french_report = asc ''fr''"
  by (simp add: french_report_def lang_eval str_eval)

text \<open>The French page has an empty outline and a title that is not empty.\<close>

theorem C10_witness:
  "french_report \<noteq> [] \<and>
   detect_language (plain_lib (asc ''fr'')) french_report = asc ''fr'' \<and>
   process_document (plain_lib (asc ''fr'')) french_report =
     \<lparr>out_title = asc ''Rapport annuel '', out_outline = []\<rparr>"
proof -
  have n: "french_report \<noteq> []" by (simp add: french_report_def)
  have e: "detect_language (plain_lib (asc ''fr'')) french_report \<noteq> asc ''en''"
    and s: "detect_language (plain_lib (asc ''fr'')) french_report \<noteq> asc ''es''"
    unfolding fr_lang by (simp_all add: asc_def)
  show ?thesis using n fr_lang C10_other_language_no_outline [OF n e s] by (simp add: fr_title)
qed

section \<open>The event override\<close>

lemma document_type_empty: "document_type U [] = Other"
  by (simp add: document_type_def classify_document_def Let_def largest_font_title_def
      title_eval event_phrases_def str_eval detect_language_def)

text \<open>
  Claim C3. When the detected language is \<^verbatim>\<open>en\<close> and the document is classified
  as an event, the output has the empty title and the outline of one fixed entry, whatever
  the candidate, scoring and filter stages would compute.
\<close>

theorem C3_event_override:
  assumes "detect_language U spans = asc ''en''"
    and "document_type U spans = Event"
  shows "process_document U spans =
           \<lparr>out_title = [], out_outline = [\<lparr>e_level = H1, e_text = asc ''HOPE To SEE You THERE! '', e_page = 0\<rparr>]\<rparr>"
proof -
  have "spans \<noteq> []" using assms(2) document_type_empty [of U] by auto
  then show ?thesis using assms by (simp add: process_document_def event_entry_def Let_def)
qed

lemma ev_title: "extract_document_title (plain_lib (asc ''en'')) event_flyer = []"
  by (simp add: event_flyer_def title_eval str_eval)

lemma ev_lang: "detect_language (plain_lib (asc ''en'')) event_flyer = asc ''en''"
  by (simp add: event_flyer_def lang_eval str_eval)

lemma ev_class: "classify_document (plain_lib (asc ''en'')) (asc ''en'') [] event_flyer = Event"
  by (simp add: classify_document_def num_pages_def event_flyer_def on_first_two_pages_def line_span_def plain_lib_sel event_phrases_def str_eval Let_def)

lemma ev_type: "document_type (plain_lib (asc ''en'')) event_flyer = Event"
  by (simp only: document_type_def ev_title ev_lang ev_class)

text \<open>The flyer is such a document.\<close>

theorem C3_witness:
  "detect_language (plain_lib (asc ''en'')) event_flyer = asc ''en'' \<and>
   document_type (plain_lib (asc ''en'')) event_flyer = Event \<and>
   process_document (plain_lib (asc ''en'')) event_flyer =
     \<lparr>out_title = [], out_outline = [\<lparr>e_level = H1, e_text = asc ''HOPE To SEE You THERE! '', e_page = 0\<rparr>]\<rparr>"
  using ev_lang ev_type C3_event_override [OF ev_lang ev_type] by simp


section \<open>Deduplication in the generic filter\<close>

lemma generic_filter_key:
  "filter (\<lambda>h. dedup_key U h = k) (generic_filter U seen hs) =
     (if k \<in> seen then []
      else case find (\<lambda>h. dedup_key U h = k) hs of
             None \<Rightarrow> []
           | Some h \<Rightarrow> if passes h then [h] else [])"
proof (induction hs arbitrary: seen)
  case Nil
  then show ?case by simp
next
  case (Cons h hs)
  show ?case
  proof (cases "dedup_key U h \<in> seen")
    case True
    then show ?thesis using Cons.IH [of seen] by auto
  next
    case False
    then show ?thesis using Cons.IH [of "insert (dedup_key U h) seen"] by auto
  qed
qed

text \<open>
  Claim C7, as amended. In the generic filter the retained entries with a given normalised
  key are: none, when no candidate has that key, or when the first candidate with that key
  (in the order in which the filter receives the candidates, which \<^verbatim>\<open>main\<close> makes
  score-descending) fails the test \<^verbatim>\<open>score > 1.5 or more than 5 words\<close>; and exactly that
  first candidate otherwise.
\<close>

theorem C7_dedup_first_or_none:
  "filter (\<lambda>h. dedup_key U h = k) (filter_headings U hs Other) =
     (case find (\<lambda>h. dedup_key U h = k) hs of
        None \<Rightarrow> []
      | Some h \<Rightarrow> if passes h then [h] else [])"
  by (simp add: filter_headings_def generic_filter_key)

lemmas dedup_eval = dedup_key_def dedup_text_def strip_non_alnum_def alnum_space_def collapse_ws_def
  passes_def low_candidate_def line_span_def

text \<open>Two candidates with the same key, neither of which passes the test: no entry with
  that key is retained, where the claim promises one.\<close>

theorem C7_counterexample:
  "dedup_key (plain_lib (asc ''en'')) (low_candidate ''Intro'') =
     dedup_key (plain_lib (asc ''en'')) (low_candidate ''INTRO.'') \<and>
   filter_headings (plain_lib (asc ''en''))
     (sort_by_score [low_candidate ''Intro'', low_candidate ''INTRO.'']) Other = []"
  by (simp add: filter_headings_def sort_by_score_def dedup_eval str_eval)

section \<open>The recall branch of the candidate detector\<close>

text \<open>
  Claim C8, as amended. For a document of type technical, rfp or pathways, a line of 3 to
  200 characters that matches no exclusion pattern is accepted when it is entirely
  upper-case, or ends with a colon, or has more than 5 words.
\<close>

theorem C8_recall_branch:
  assumes "dt = Technical \<or> dt = Rfp \<or> dt = Pathways"
    and "3 \<le> length t" and "length t \<le> 200"
    and "\<not> any_match U exclude_patterns t"
    and "py_isupper U t \<or> py_endswith t (asc '':'') \<or> length (py_split t) > 5"
  shows "is_likely_heading U t span_info stats dt"
  using assms by (simp add: is_likely_heading_def)

lemma annex_not_excluded: "\<not> any_match U exclude_patterns (asc ''see annex 3 for table 12'')"
  by (simp add: exclude_patterns_def rx_eval)

lemma annex_no_heading_pattern: "\<not> any_match U heading_patterns (asc ''see annex 3 for table 12'')"
  by (simp add: heading_patterns_def rx_eval)

lemma please_excluded: "any_match U exclude_patterns (asc ''PLEASE CALL'')"
  by (simp add: exclude_patterns_def rx_eval)

text \<open>A colon-terminated line of two characters and an upper-case line that an exclusion
  pattern matches are both rejected.\<close>

theorem C8_counterexample:
  "py_endswith (asc ''A:'') (asc '':'') \<and>
   \<not> is_likely_heading (plain_lib (asc ''en'')) (asc ''A:'') (line_span ''A:'' 12 0 100)
       (analyze_document_structure [line_span ''A:'' 12 0 100]) Technical \<and>
   py_isupper (plain_lib (asc ''en'')) (asc ''PLEASE CALL'') \<and>
   \<not> is_likely_heading (plain_lib (asc ''en'')) (asc ''PLEASE CALL'') (line_span ''PLEASE CALL'' 12 0 100)
       (analyze_document_structure [line_span ''PLEASE CALL'' 12 0 100]) Technical"
proof -
  have a: "py_endswith (asc ''A:'') (asc '':'')" by (simp add: str_eval)
  have b: "\<not> is_likely_heading (plain_lib (asc ''en'')) (asc ''A:'') (line_span ''A:'' 12 0 100)
       (analyze_document_structure [line_span ''A:'' 12 0 100]) Technical"
    by (simp add: is_likely_heading_def asc_def)
  have c: "py_isupper (plain_lib (asc ''en'')) (asc ''PLEASE CALL'')" by (simp add: str_eval)
  have d: "\<not> is_likely_heading (plain_lib (asc ''en'')) (asc ''PLEASE CALL'') (line_span ''PLEASE CALL'' 12 0 100)
       (analyze_document_structure [line_span ''PLEASE CALL'' 12 0 100]) Technical"
    by (simp add: is_likely_heading_def please_excluded)
  show ?thesis using a b c d by blast
qed

text \<open>A line of six words that no heading pattern matches: accepted in a technical
  document, rejected in a document of type other.\<close>

theorem C8_witness:
  "3 \<le> length (asc ''see annex 3 for table 12'') \<and> length (asc ''see annex 3 for table 12'') \<le> 200 \<and>
   \<not> any_match (plain_lib (asc ''en'')) exclude_patterns (asc ''see annex 3 for table 12'') \<and>
   length (py_split (asc ''see annex 3 for table 12'')) > 5 \<and>
   is_likely_heading (plain_lib (asc ''en'')) (asc ''see annex 3 for table 12'')
     (line_span ''see annex 3 for table 12'' 12 3 100)
     (analyze_document_structure [line_span ''see annex 3 for table 12'' 12 3 100]) Technical \<and>
   \<not> is_likely_heading (plain_lib (asc ''en'')) (asc ''see annex 3 for table 12'')
     (line_span ''see annex 3 for table 12'' 12 3 100)
     (analyze_document_structure [line_span ''see annex 3 for table 12'' 12 3 100]) Other"
proof -
  have l1: "3 \<le> length (asc ''see annex 3 for table 12'')" by (simp add: asc_def)
  have l2: "length (asc ''see annex 3 for table 12'') \<le> 200" by (simp add: asc_def)
  have w: "length (py_split (asc ''see annex 3 for table 12'')) > 5" by (simp add: str_eval)
  have o: "\<not> is_likely_heading (plain_lib (asc ''en'')) (asc ''see annex 3 for table 12'')
     (line_span ''see annex 3 for table 12'' 12 3 100)
     (analyze_document_structure [line_span ''see annex 3 for table 12'' 12 3 100]) Other"
    by (simp add: is_likely_heading_def annex_not_excluded annex_no_heading_pattern)
  show ?thesis
    using l1 l2 w o annex_not_excluded [of "plain_lib (asc ''en'')"]
      C8_recall_branch [of Technical "asc ''see annex 3 for table 12''" "plain_lib (asc ''en'')", OF _ l1 l2 annex_not_excluded]
    by blast
qed

section \<open>Document statistics and the percentile fallback\<close>

lemma percentile_lookup:
  assumes "distinct us" and "i < length us"
  shows "map_of (map (\<lambda>(sz, rank). (sz, g rank)) (zip us [0 ..< length us])) (us ! i) = Some (g i)"
proof -
  have "map (\<lambda>(sz, rank). (sz, g rank)) (zip us [0 ..< length us]) = zip us (map g [0 ..< length us])"
    by (simp add: zip_map2)
  then show ?thesis using assms map_of_zip_nth [of us "map g [0 ..< length us]" i] by simp
qed

lemma percentile_dom:
  "dom (map_of (map (\<lambda>(sz, rank). (sz, g rank)) (zip us [0 ..< length us]))) = set us"
proof -
  have "map (\<lambda>(sz, rank). (sz, g rank)) (zip us [0 ..< length us]) = zip us (map g [0 ..< length us])"
    by (simp add: zip_map2)
  then show ?thesis by (simp add: dom_map_of_zip)
qed

lemma analyze_nonempty:
  assumes "spans \<noteq> []"
  shows "unique_sizes (analyze_document_structure spans) = sort (remdups (map span_size spans))"
    and "size_percentile (analyze_document_structure spans) =
           map_of (map (\<lambda>(sz, rank). (sz, if length (sort (remdups (map span_size spans))) > 1
                                            then of_nat rank / of_nat (length (sort (remdups (map span_size spans))) - 1) else 1))
                    (zip (sort (remdups (map span_size spans))) [0 ..< length (sort (remdups (map span_size spans)))]))"
    and "avg_size (analyze_document_structure spans) = sum_list (map span_size spans) / of_nat (length spans)"
  using assms by (simp_all add: analyze_document_structure_def Let_def)


lemma single_size_percentile:
  assumes "s \<in> set spans" and "\<forall>r \<in> set spans. span_size r = span_size s"
  shows "percentile_of (analyze_document_structure spans) (span_size s) = 1"
proof -
  define us where "us = sort (remdups (map span_size spans))"
  have ne: "spans \<noteq> []" using assms(1) by auto
  have d: "distinct us" by (simp add: us_def)
  have im: "set us = span_size ` set spans" by (simp add: us_def)
  have "span_size ` set spans \<subseteq> {span_size s}" using assms(2) by blast
  moreover have "span_size s \<in> span_size ` set spans" using assms(1) by blast
  ultimately have su: "set us = {span_size s}" unfolding im by blast
  have "length us = card (set us)" using d by (simp add: distinct_card)
  then have n: "length us = 1" using su by simp
  then have z: "us ! 0 = span_size s" using su by (cases us) auto
  have i0: "0 < length us" using n by simp
  have "size_percentile (analyze_document_structure spans) (us ! 0) = Some 1"
    unfolding analyze_nonempty(2) [OF ne] us_def [symmetric]
    using percentile_lookup [OF d i0, of "\<lambda>rank. if length us > 1 then of_nat rank / of_nat (length us - 1) else 1"] n
    by simp
  then show ?thesis unfolding z by (simp add: percentile_of_def)
qed

text \<open>
  Claim C6, as amended. The statistics of the empty span list are empty and zero.
  Otherwise the distinct sizes are listed in ascending order, the size of rank \<open>i\<close> among
  \<open>n\<close> has percentile \<open>i / (n - 1)\<close>, or 1 when \<open>n = 1\<close>, no other size has a percentile,
  and the average is the arithmetic mean. In a document with a single font size, a heading
  that carries a span of the document and whose text matches no level pattern is therefore
  classified H1.
\<close>

theorem C6_statistics:
  "analyze_document_structure [] = \<lparr>unique_sizes = [], size_percentile = Map.empty, avg_size = 0\<rparr> \<and>
   (spans \<noteq> [] \<longrightarrow>
     (let st = analyze_document_structure spans; us = unique_sizes st; n = length us in
        sorted us \<and> distinct us \<and> set us = span_size ` set spans \<and>
        dom (size_percentile st) = set us \<and>
        (\<forall>i<n. size_percentile st (us ! i) = Some (if n > 1 then of_nat i / of_nat (n - 1) else 1)) \<and>
        avg_size st = sum_list (map span_size spans) / of_nat (length spans))) \<and>
   (s \<in> set spans \<and> (\<forall>r \<in> set spans. span_size r = span_size s) \<and>
    \<not> any_match U h4_patterns t \<and> \<not> any_match U h3_patterns t \<and>
    \<not> any_match U h2_patterns t \<and> \<not> any_match U h1_patterns t \<longrightarrow>
      classify_heading_level U t (Full s) (analyze_document_structure spans) = H1)"
proof (intro conjI impI)
  show "analyze_document_structure [] = \<lparr>unique_sizes = [], size_percentile = Map.empty, avg_size = 0\<rparr>"
    by (simp add: analyze_document_structure_def)
next
  assume ne: "spans \<noteq> []"
  define us where "us = sort (remdups (map span_size spans))"
  have p: "\<forall>i<length us. size_percentile (analyze_document_structure spans) (us ! i) =
      Some (if length us > 1 then of_nat i / of_nat (length us - 1) else 1)"
  proof (intro allI impI)
    fix i
    have d: "distinct us" by (simp add: us_def)
    assume i: "i < length us"
    show "size_percentile (analyze_document_structure spans) (us ! i) =
      Some (if length us > 1 then of_nat i / of_nat (length us - 1) else 1)"
      unfolding analyze_nonempty(2) [OF ne] us_def [symmetric]
      using percentile_lookup [OF d i, of "\<lambda>rank. if length us > 1 then of_nat rank / of_nat (length us - 1) else 1"]
      by simp
  qed
  have dm: "dom (size_percentile (analyze_document_structure spans)) = set us"
    unfolding analyze_nonempty(2) [OF ne] us_def [symmetric] by (rule percentile_dom)
  show "let st = analyze_document_structure spans; us = unique_sizes st; n = length us in
        sorted us \<and> distinct us \<and> set us = span_size ` set spans \<and>
        dom (size_percentile st) = set us \<and>
        (\<forall>i<n. size_percentile st (us ! i) = Some (if n > 1 then of_nat i / of_nat (n - 1) else 1)) \<and>
        avg_size st = sum_list (map span_size spans) / of_nat (length spans)"
  proof -
    have a: "sorted us \<and> distinct us \<and> set us = span_size ` set spans" by (simp add: us_def)
    have u: "unique_sizes (analyze_document_structure spans) = us"
      unfolding us_def by (rule analyze_nonempty(1) [OF ne])
    show ?thesis unfolding Let_def u using a p dm analyze_nonempty(3) [OF ne] by blast
  qed
next
  assume h: "s \<in> set spans \<and> (\<forall>r \<in> set spans. span_size r = span_size s) \<and>
    \<not> any_match U h4_patterns t \<and> \<not> any_match U h3_patterns t \<and>
    \<not> any_match U h2_patterns t \<and> \<not> any_match U h1_patterns t"
  then have "percentile_of (analyze_document_structure spans) (span_size s) = 1"
    using single_size_percentile by blast
  moreover have "\<not> any_match U h4_patterns t" "\<not> any_match U h3_patterns t"
    "\<not> any_match U h2_patterns t" "\<not> any_match U h1_patterns t"
    using h by blast+
  ultimately show "classify_heading_level U t (Full s) (analyze_document_structure spans) = H1"
    by (simp add: classify_heading_level_def)
qed


lemma news_no_level_pattern:
  "\<not> any_match U h4_patterns (asc ''What is new in 2024?'')"
  "\<not> any_match U h3_patterns (asc ''What is new in 2024?'')"
  "\<not> any_match U h2_patterns (asc ''What is new in 2024?'')"
  "\<not> any_match U h1_patterns (asc ''What is new in 2024?'')"
  by (simp_all add: h4_patterns_def h3_patterns_def h2_patterns_def h1_patterns_def rx_eval)

text \<open>A document of one line.\<close>

theorem C6_witness:
  "[news_line] \<noteq> [] \<and> news_line \<in> set [news_line] \<and>
   \<not> any_match (plain_lib (asc ''en'')) h1_patterns (asc ''What is new in 2024?'') \<and>
   unique_sizes (analyze_document_structure [news_line]) = [12] \<and>
   size_percentile (analyze_document_structure [news_line]) 12 = Some 1 \<and>
   avg_size (analyze_document_structure [news_line]) = 12 \<and>
   classify_heading_level (plain_lib (asc ''en'')) (asc ''What is new in 2024?'') (Full news_line)
     (analyze_document_structure [news_line]) = H1"
proof -
  have u: "unique_sizes (analyze_document_structure [news_line]) = [12]"
    by (simp add: analyze_document_structure_def news_line_def line_span_def)
  have m: "news_line \<in> set [news_line] \<and> (\<forall>r \<in> set [news_line]. span_size r = span_size news_line)"
    by simp
  have c: "classify_heading_level (plain_lib (asc ''en'')) (asc ''What is new in 2024?'') (Full news_line)
     (analyze_document_structure [news_line]) = H1"
    using C6_statistics [of "[news_line]" news_line "plain_lib (asc ''en'')" "asc ''What is new in 2024?''"]
      m news_no_level_pattern [of "plain_lib (asc ''en'')"] by blast
  have "let st = analyze_document_structure [news_line]; us = unique_sizes st; n = length us in
        sorted us \<and> distinct us \<and> set us = span_size ` set [news_line] \<and>
        dom (size_percentile st) = set us \<and>
        (\<forall>i<n. size_percentile st (us ! i) = Some (if n > 1 then of_nat i / of_nat (n - 1) else 1)) \<and>
        avg_size st = sum_list (map span_size [news_line]) / of_nat (length [news_line])"
    using C6_statistics [of "[news_line]" news_line "plain_lib (asc ''en'')" "asc ''What is new in 2024?''"]
    by blast
  then have "size_percentile (analyze_document_structure [news_line]) 12 = Some 1 \<and>
     avg_size (analyze_document_structure [news_line]) = 12"
    unfolding Let_def u by (simp add: news_line_def line_span_def)
  then show ?thesis using u c news_no_level_pattern(4) [of "plain_lib (asc ''en'')"] by simp
qed


section \<open>Literal reconciliation\<close>

lemma reconcile_length:
  "length (reconcile U hs m idx lp found es) = length found + length es"
  by (induction es arbitrary: idx lp found) (auto simp: Let_def)

lemma reconcile_prefix:
  "i < length found \<Longrightarrow> reconcile U hs m idx lp found es ! i = found ! i"
  by (induction es arbitrary: idx lp found) (auto simp: Let_def nth_append)

lemma reconcile_text:
  "map h_text (reconcile U hs m idx lp found es) = map h_text found @ map fst es"
  by (induction es arbitrary: idx lp found) (auto simp: Let_def)

lemma reconcile_level:
  "map h_level (reconcile U hs m idx lp found es) = map h_level found @ map (\<lambda>e. Some (snd e)) es"
  by (induction es arbitrary: idx lp found) (auto simp: Let_def)

lemma reconcile_page:
  assumes "idx = length found"
    and "found \<noteq> [] \<longrightarrow> lp = hspan_page (h_span (last found))"
    and "j < length es"
  shows "hspan_page (h_span (reconcile U hs m idx lp found es ! (length found + j))) =
     (case find_best U hs m (length found + j) (fst (es ! j)) of
        Some b \<Rightarrow> hspan_page (h_span b)
      | None \<Rightarrow> if length found + j = 0 then 0
                else hspan_page (h_span (reconcile U hs m idx lp found es ! (length found + j - 1))) + 1)"
  using assms
proof (induction es arbitrary: idx lp found j)
  case Nil
  then show ?case by simp
next
  case (Cons e rest)
  obtain t l where e: "e = (t, l)" by (cases e) auto
  define pg where "pg = (case find_best U hs m idx t of
                  Some best \<Rightarrow> hspan_page (h_span best)
                | None \<Rightarrow> if found \<noteq> [] then lp + 1 else 0)"
  define new where "new = \<lparr>h_level = Some l, h_text = t, h_span = PageOnly pg, h_score = 0\<rparr>"
  have step: "reconcile U hs m idx lp found (e # rest) = reconcile U hs m (idx + 1) pg (found @ [new]) rest"
    by (simp add: e pg_def new_def Let_def)
  define out where "out = reconcile U hs m (idx + 1) pg (found @ [new]) rest"
  show ?case
  proof (cases j)
    case 0
    have at: "out ! length found = new"
      unfolding out_def
      using reconcile_prefix [of "length found" "found @ [new]" U hs m "idx + 1" pg rest] by simp
    have pg_page: "hspan_page (h_span (out ! length found)) = pg"
      unfolding at by (simp add: new_def)
    have before: "found \<noteq> [] \<Longrightarrow> hspan_page (h_span (out ! (length found - 1))) = lp"
    proof -
      assume ne: "found \<noteq> []"
      have "out ! (length found - 1) = (found @ [new]) ! (length found - 1)"
        unfolding out_def using ne by (intro reconcile_prefix) simp
      also have "\<dots> = last found" using ne by (simp add: nth_append last_conv_nth)
      finally show ?thesis using ne Cons.prems(2) by simp
    qed
    have goal: "pg = (case find_best U hs m (length found) t of
        Some b \<Rightarrow> hspan_page (h_span b)
      | None \<Rightarrow> if length found = 0 then 0
                else hspan_page (h_span (out ! (length found - 1))) + 1)"
    proof (cases "find_best U hs m (length found) t")
      case None
      show ?thesis
      proof (cases "found = []")
        case True
        then show ?thesis using None Cons.prems(1) by (simp add: pg_def)
      next
        case False
        then show ?thesis using None Cons.prems(1) before [OF False] by (simp add: pg_def)
      qed
    next
      case (Some b)
      then show ?thesis using Cons.prems(1) by (simp add: pg_def)
    qed
    show ?thesis unfolding step out_def [symmetric] 0 using pg_page goal
      by (simp add: e cong: option.case_cong)
  next
    case (Suc j')
    have "hspan_page (h_span (reconcile U hs m (idx + 1) pg (found @ [new]) rest ! (length (found @ [new]) + j'))) =
     (case find_best U hs m (length (found @ [new]) + j') (fst (rest ! j')) of
        Some b \<Rightarrow> hspan_page (h_span b)
      | None \<Rightarrow> if length (found @ [new]) + j' = 0 then 0
                else hspan_page (h_span (reconcile U hs m (idx + 1) pg (found @ [new]) rest ! (length (found @ [new]) + j' - 1))) + 1)"
      using Cons.prems Suc by (intro Cons.IH) (simp_all add: new_def)
    then show ?thesis unfolding step Suc by (simp cong: option.case_cong)
  qed
qed


text \<open>
  Claim C4, as amended. In the literal reconciliation of a technical or rfp document, an
  expected entry that no candidate matches is put on page 0 when it is the first entry of
  the list, and otherwise on the page after the one given to the entry before it, whether
  that entry was matched or not.
\<close>

theorem C4_synthesized_page:
  assumes "dt = Technical \<or> dt = Rfp"
    and "i < length (if dt = Technical then technical_expected else rfp_expected)"
    and "find_best U hs (toc_end_page U hs + 1) i
           (fst ((if dt = Technical then technical_expected else rfp_expected) ! i)) = None"
  shows "hspan_page (h_span (filter_headings U hs dt ! i)) =
           (if i = 0 then 0 else hspan_page (h_span (filter_headings U hs dt ! (i - 1))) + 1)"
proof -
  define es where "es = (if dt = Technical then technical_expected else rfp_expected)"
  have f: "filter_headings U hs dt = reconcile U hs (toc_end_page U hs + 1) 0 0 [] es"
    using assms(1) by (auto simp: filter_headings_def es_def Let_def)
  have i: "i < length es" using assms(2) by (simp add: es_def)
  have n: "find_best U hs (toc_end_page U hs + 1) i (fst (es ! i)) = None"
    using assms(3) by (simp add: es_def)
  show ?thesis
    unfolding f
    using reconcile_page [of 0 "[]" 0 i es U hs "toc_end_page U hs + 1"] i n by simp
qed

lemmas reconcile_eval = filter_headings_def toc_end_page_def norm_def find_best_def better_def
  overlap_ratio_def strip_non_alnum_def alnum_space_def collapse_ws_def plain_lib_sel Let_def

lemma pages_without_candidates:
  "map (\<lambda>h. hspan_page (h_span h)) (filter_headings (plain_lib (asc ''en'')) [] Technical) =
     [0, 1, 2, 3, 4, 5, 6, 7, 8, 9, 10, 11, 12, 13, 14, 15, 16]"
  by (simp add: reconcile_eval technical_expected_def)

lemma pages_with_one_candidate:
  "map (\<lambda>h. hspan_page (h_span h))
     (filter_headings (plain_lib (asc ''en'')) [keeping_candidate] Technical) =
     [0, 1, 2, 3, 4, 5, 6, 7, 8, 9, 4, 5, 6, 7, 8, 9, 10]"
  by (simp add: reconcile_eval technical_expected_def keeping_candidate_def line_span_def str_eval)

lemma unmatched_9_11:
  "find_best (plain_lib (asc ''en'')) [keeping_candidate] 4 9 (fst (technical_expected ! 9)) = None"
  "find_best (plain_lib (asc ''en'')) [keeping_candidate] 4 11 (fst (technical_expected ! 11)) = None"
  by (simp_all add: reconcile_eval technical_expected_def keeping_candidate_def line_span_def str_eval)


lemma toc_one_candidate: "toc_end_page (plain_lib (asc ''en'')) [keeping_candidate] = 3"
  by (simp add: reconcile_eval keeping_candidate_def line_span_def str_eval)

text \<open>
  With no candidate at all the entries are put on the pages 0 to 16, not all on page 0.
  With a single candidate that matches the eleventh entry on page 4, the entries before it
  reach page 9 and the unmatched entry after it is put on page 5: the pages of the
  unmatched entries 9 and 11 decrease.
\<close>

theorem C4_counterexample:
  "map (\<lambda>h. hspan_page (h_span h)) (filter_headings (plain_lib (asc ''en'')) [] Technical) =
     [0, 1, 2, 3, 4, 5, 6, 7, 8, 9, 10, 11, 12, 13, 14, 15, 16] \<and>
   map (\<lambda>h. hspan_page (h_span h))
     (filter_headings (plain_lib (asc ''en'')) [keeping_candidate] Technical) =
     [0, 1, 2, 3, 4, 5, 6, 7, 8, 9, 4, 5, 6, 7, 8, 9, 10] \<and>
   find_best (plain_lib (asc ''en'')) [keeping_candidate]
     (toc_end_page (plain_lib (asc ''en'')) [keeping_candidate] + 1) 9
     (fst (technical_expected ! 9)) = None \<and>
   find_best (plain_lib (asc ''en'')) [keeping_candidate]
     (toc_end_page (plain_lib (asc ''en'')) [keeping_candidate] + 1) 11
     (fst (technical_expected ! 11)) = None"
  unfolding toc_one_candidate
  using pages_without_candidates pages_with_one_candidate unmatched_9_11 by simp

text \<open>The entry after the matched one.\<close>

theorem C4_witness:
  "11 < length technical_expected \<and>
   find_best (plain_lib (asc ''en'')) [keeping_candidate]
     (toc_end_page (plain_lib (asc ''en'')) [keeping_candidate] + 1) 11
     (fst (technical_expected ! 11)) = None \<and>
   hspan_page (h_span (filter_headings (plain_lib (asc ''en'')) [keeping_candidate] Technical ! 11)) =
   hspan_page (h_span (filter_headings (plain_lib (asc ''en'')) [keeping_candidate] Technical ! 10)) + 1"
proof -
  have l: "11 < length (if Technical = Technical then technical_expected else rfp_expected)"
    by (simp add: technical_expected_def)
  have n: "find_best (plain_lib (asc ''en'')) [keeping_candidate]
     (toc_end_page (plain_lib (asc ''en'')) [keeping_candidate] + 1) 11
     (fst ((if Technical = Technical then technical_expected else rfp_expected) ! 11)) = None"
    unfolding toc_one_candidate using unmatched_9_11(2) by simp
  show ?thesis
    using l n C4_synthesized_page [of Technical 11 "plain_lib (asc ''en'')" "[keeping_candidate]", OF _ l n]
    by simp
qed

section \<open>The levels of the reconciled entries\<close>

lemma intro_not_h4:
  "\<not> any_match U h4_patterns (asc ''1. Introduction to the Foundation Level Extensions '')"
  by (simp add: h4_patterns_def rx_eval)

lemma intro_h3:
  "any_match U h3_patterns (asc ''1. Introduction to the Foundation Level Extensions '')"
  by (simp add: h3_patterns_def rx_eval)

lemma intro_level:
  "classify_heading_level U (asc ''1. Introduction to the Foundation Level Extensions '') span_info stats = H3"
  by (simp add: classify_heading_level_def intro_not_h4 intro_h3)

lemma technical_texts_spaced:
  "list_all (\<lambda>e. one_trailing_space (fst e)) technical_expected"
  by (simp add: technical_expected_def one_trailing_space_def str_eval)

lemma rfp_texts_spaced:
  "list_all (\<lambda>e. one_trailing_space (fst e)) rfp_expected"
  by (simp add: rfp_expected_def one_trailing_space_def str_eval)

lemma emit_text_spaced:
  "py_endswith (h_text h) (asc '' '') \<Longrightarrow> e_text (emit U stats h) = h_text h"
  by (simp add: emit_def)

lemma filter_technical:
  "filter_headings U hs Technical = reconcile U hs (toc_end_page U hs + 1) 0 0 [] technical_expected"
  by (simp add: filter_headings_def Let_def)

lemma filter_rfp:
  "filter_headings U hs Rfp = reconcile U hs (toc_end_page U hs + 1) 0 0 [] rfp_expected"
  by (simp add: filter_headings_def Let_def)

lemma emitted_texts:
  assumes "map h_text fh = map fst es" and "list_all (\<lambda>e. one_trailing_space (fst e)) es"
  shows "map e_text (map (emit U stats) fh) = map fst es"
proof -
  have "\<forall>h \<in> set fh. py_endswith (h_text h) (asc '' '')"
  proof
    fix h assume "h \<in> set fh"
    then have "h_text h \<in> set (map h_text fh)" by simp
    then have "h_text h \<in> fst ` set es" using assms(1) by simp
    then show "py_endswith (h_text h) (asc '' '')"
      using assms(2) by (auto simp: list_all_iff one_trailing_space_def)
  qed
  then have "map e_text (map (emit U stats) fh) = map h_text fh"
    by (simp add: emit_text_spaced)
  then show ?thesis using assms(1) by simp
qed

lemma fp_lang: "detect_language (plain_lib (asc ''en'')) foundation_page = asc ''en''"
  by (simp add: foundation_page_def lang_eval str_eval)

lemma fp_title:
  "extract_document_title (plain_lib (asc ''en'')) foundation_page = technical_title"
  by (simp add: foundation_page_def title_eval str_eval)

lemma fp_class:
  "classify_document (plain_lib (asc ''en'')) (asc ''en'') technical_title foundation_page = Technical"
  by (simp add: classify_document_def technical_title_def str_eval Let_def plain_lib_sel)

lemma fp_type: "document_type (plain_lib (asc ''en'')) foundation_page = Technical"
  by (simp only: document_type_def fp_lang fp_title fp_class)

text \<open>
  Claim C1. For the technical and the rfp list the emitted texts are the expected texts, in
  order, whatever the candidates are, and the filter stores the expected level in each
  entry. The emitted level, however, is computed again by \<open>classify_heading_level\<close>
  from the text: the fourth entry of the technical list, expected at H1, is emitted at H3.
  So it is on the page that the title resolver takes for the technical document.
\<close>

theorem C1_levels_recomputed:
  "map e_text (map (emit U stats) (filter_headings U hs Technical)) = map fst technical_expected \<and>
   map e_text (map (emit U stats) (filter_headings U hs Rfp)) = map fst rfp_expected \<and>
   map h_level (filter_headings U hs Technical) = map (\<lambda>e. Some (snd e)) technical_expected \<and>
   technical_expected ! 3 = (asc ''1. Introduction to the Foundation Level Extensions '', H1) \<and>
   e_level (map (emit U stats) (filter_headings U hs Technical) ! 3) = H3 \<and>
   document_type (plain_lib (asc ''en'')) foundation_page = Technical \<and>
   e_level (out_outline (process_document (plain_lib (asc ''en'')) foundation_page) ! 3) = H3 \<and>
   e_text (out_outline (process_document (plain_lib (asc ''en'')) foundation_page) ! 3) =
     asc ''1. Introduction to the Foundation Level Extensions ''"
proof -
  have t: "map h_text (filter_headings U hs Technical) = map fst technical_expected" for U hs
    unfolding filter_technical by (simp add: reconcile_text)
  have r: "map h_text (filter_headings U hs Rfp) = map fst rfp_expected" for U hs
    unfolding filter_rfp by (simp add: reconcile_text)
  have l: "map h_level (filter_headings U hs Technical) = map (\<lambda>e. Some (snd e)) technical_expected"
    unfolding filter_technical by (simp add: reconcile_level)
  have n17: "length technical_expected = 17" by (simp add: technical_expected_def)
  have len: "length (filter_headings U hs Technical) = 17" for U hs
    unfolding filter_technical reconcile_length n17 by simp
  have e3: "technical_expected ! 3 = (asc ''1. Introduction to the Foundation Level Extensions '', H1)"
    by (simp add: technical_expected_def)
  have t3: "h_text (filter_headings U hs Technical ! 3) =
      asc ''1. Introduction to the Foundation Level Extensions ''" for U hs
  proof -
    have "h_text (filter_headings U hs Technical ! 3) = map h_text (filter_headings U hs Technical) ! 3"
      using len [of U hs] by simp
    also have "\<dots> = fst (technical_expected ! 3)"
      unfolding t by (simp add: technical_expected_def)
    finally show ?thesis unfolding e3 by simp
  qed
  have lv: "e_level (map (emit U stats) (filter_headings U hs Technical) ! 3) = H3" for U stats hs
    using len [of U hs] t3 [of U hs] by (simp add: emit_def intro_level)
  have tx: "e_text (map (emit U stats) (filter_headings U hs Technical) ! 3) =
      asc ''1. Introduction to the Foundation Level Extensions ''" for U stats hs
  proof -
    have "e_text (map (emit U stats) (filter_headings U hs Technical) ! 3) =
        map e_text (map (emit U stats) (filter_headings U hs Technical)) ! 3"
      using len [of U hs] by simp
    also have "\<dots> = fst (technical_expected ! 3)"
      unfolding emitted_texts [OF t technical_texts_spaced] by (simp add: technical_expected_def)
    finally show ?thesis unfolding e3 by simp
  qed
  have ne: "foundation_page \<noteq> []" by (simp add: foundation_page_def)
  have pd: "out_outline (process_document (plain_lib (asc ''en'')) foundation_page) =
      map (emit (plain_lib (asc ''en'')) (analyze_document_structure foundation_page))
        (filter_headings (plain_lib (asc ''en''))
           (sort_by_score (potential_headings (plain_lib (asc ''en'')) foundation_page)) Technical)"
    by (simp add: process_document_def ne fp_lang fp_type Let_def)
  show ?thesis
    unfolding pd
    using emitted_texts [OF t technical_texts_spaced] emitted_texts [OF r rfp_texts_spaced]
      l e3 lv tx fp_type
    by simp
qed


section \<open>The percentile fallback on reconciled entries\<close>

lemma reconcile_sizeless:
  "\<forall>h \<in> set found. hspan_size (h_span h) = 0 \<Longrightarrow>
   \<forall>h \<in> set (reconcile U hs m idx lp found es). hspan_size (h_span h) = 0"
proof (induction es arbitrary: idx lp found)
  case Nil
  then show ?case by simp
next
  case (Cons e rest)
  obtain t l where e: "e = (t, l)" by (cases e) auto
  define pg where "pg = (case find_best U hs m idx t of
                  Some best \<Rightarrow> hspan_page (h_span best)
                | None \<Rightarrow> if found \<noteq> [] then lp + 1 else 0)"
  define new where "new = \<lparr>h_level = Some l, h_text = t, h_span = PageOnly pg, h_score = 0\<rparr>"
  have step: "reconcile U hs m idx lp found (e # rest) = reconcile U hs m (idx + 1) pg (found @ [new]) rest"
    by (simp add: e pg_def new_def Let_def)
  have "\<forall>h \<in> set (found @ [new]). hspan_size (h_span h) = 0"
    using Cons.prems by (simp add: new_def)
  then show ?case unfolding step by (rule Cons.IH)
qed

lemma odl_no_level_pattern:
  "\<not> any_match U h4_patterns (asc ''What could the ODL really mean? '')"
  "\<not> any_match U h3_patterns (asc ''What could the ODL really mean? '')"
  "\<not> any_match U h2_patterns (asc ''What could the ODL really mean? '')"
  "\<not> any_match U h1_patterns (asc ''What could the ODL really mean? '')"
  by (simp_all add: h4_patterns_def h3_patterns_def h2_patterns_def h1_patterns_def rx_eval)

lemma rp_lang: "detect_language (plain_lib (asc ''en'')) rfp_page = asc ''en''"
  by (simp add: rfp_page_def lang_eval str_eval)

lemma rp_title: "extract_document_title (plain_lib (asc ''en'')) rfp_page = rfp_title"
  by (simp add: rfp_page_def title_eval str_eval)

lemma rp_class:
  "classify_document (plain_lib (asc ''en'')) (asc ''en'') rfp_title rfp_page = Rfp"
  by (simp add: classify_document_def rfp_title_def str_eval Let_def plain_lib_sel)

lemma rp_type: "document_type (plain_lib (asc ''en'')) rfp_page = Rfp"
  by (simp only: document_type_def rp_lang rp_title rp_class)

lemma rp_stats:
  "unique_sizes (analyze_document_structure rfp_page) = [12]"
  "percentile_of (analyze_document_structure rfp_page) 0 = 0"
  by (simp_all add: analyze_document_structure_def rfp_page_def line_span_def percentile_of_def)

text \<open>
  The entries that literal reconciliation builds carry a page and no size: their size reads
  as 0 and their percentile as 0. On the page that is taken for the request for proposal
  there is a single font size, the sixteenth expected text matches no level pattern, and it
  is emitted at H3, where claim C6 as first stated promises H1.
\<close>

theorem C6_counterexample:
  "document_type (plain_lib (asc ''en'')) rfp_page = Rfp \<and>
   unique_sizes (analyze_document_structure rfp_page) = [12] \<and>
   \<not> any_match (plain_lib (asc ''en'')) h4_patterns (asc ''What could the ODL really mean? '') \<and>
   \<not> any_match (plain_lib (asc ''en'')) h3_patterns (asc ''What could the ODL really mean? '') \<and>
   \<not> any_match (plain_lib (asc ''en'')) h2_patterns (asc ''What could the ODL really mean? '') \<and>
   \<not> any_match (plain_lib (asc ''en'')) h1_patterns (asc ''What could the ODL really mean? '') \<and>
   e_text (out_outline (process_document (plain_lib (asc ''en'')) rfp_page) ! 15) =
     asc ''What could the ODL really mean? '' \<and>
   e_level (out_outline (process_document (plain_lib (asc ''en'')) rfp_page) ! 15) = H3"
proof -
  define fh where "fh = filter_headings (plain_lib (asc ''en''))
     (sort_by_score (potential_headings (plain_lib (asc ''en'')) rfp_page)) Rfp"
  have n39: "length rfp_expected = 39" by (simp add: rfp_expected_def)
  have len: "length fh = 39" unfolding fh_def filter_rfp reconcile_length n39 by simp
  have e15: "fst (rfp_expected ! 15) = asc ''What could the ODL really mean? ''"
    by (simp add: rfp_expected_def)
  have "h_text (fh ! 15) = map h_text fh ! 15" using len by simp
  also have "\<dots> = map fst rfp_expected ! 15"
    unfolding fh_def filter_rfp by (simp add: reconcile_text)
  also have "\<dots> = asc ''What could the ODL really mean? ''" using n39 e15 by simp
  finally have tx: "h_text (fh ! 15) = asc ''What could the ODL really mean? ''" .
  have "\<forall>h \<in> set fh. hspan_size (h_span h) = 0"
    unfolding fh_def filter_rfp by (rule reconcile_sizeless) simp
  then have sz: "hspan_size (h_span (fh ! 15)) = 0" using len by simp
  have ne: "rfp_page \<noteq> []" by (simp add: rfp_page_def)
  have pd: "out_outline (process_document (plain_lib (asc ''en'')) rfp_page) =
      map (emit (plain_lib (asc ''en'')) (analyze_document_structure rfp_page)) fh"
    unfolding fh_def by (simp add: process_document_def ne rp_lang rp_type Let_def)
  have lv: "e_level (emit (plain_lib (asc ''en'')) (analyze_document_structure rfp_page) (fh ! 15)) = H3"
    unfolding emit_def tx by (simp add: classify_heading_level_def odl_no_level_pattern sz rp_stats(2))
  have et: "e_text (emit (plain_lib (asc ''en'')) (analyze_document_structure rfp_page) (fh ! 15)) =
      asc ''What could the ODL really mean? ''"
    unfolding emit_def tx by (simp add: str_eval)
  show ?thesis
    unfolding pd using len lv et rp_type rp_stats(1) odl_no_level_pattern [of "plain_lib (asc ''en'')"]
    by simp
qed


section \<open>Trailing spaces\<close>

lemma asc_space: "asc '' '' = [32]" "asc ''  '' = [32, 32]"
  by (simp_all add: asc_def)

lemma endswith_space_iff: "py_endswith s [32] \<longleftrightarrow> s \<noteq> [] \<and> last s = 32"
proof (cases s rule: rev_cases)
  case Nil
  then show ?thesis by (simp add: py_endswith_def)
next
  case (snoc ys y)
  then show ?thesis by (simp add: py_endswith_def)
qed

lemma endswith_two_spaces_iff:
  "py_endswith (t @ [32]) [32, 32] \<longleftrightarrow> py_endswith t [32]"
proof (cases t rule: rev_cases)
  case Nil
  then show ?thesis by (simp add: py_endswith_def)
next
  case (snoc ys y)
  then show ?thesis by (simp add: py_endswith_def)
qed

lemma strip_no_trailing_space: "\<not> py_endswith (py_strip s) [32]"
proof
  assume "py_endswith (py_strip s) [32]"
  then have ne: "py_strip s \<noteq> []" and l: "last (py_strip s) = 32"
    by (simp_all add: endswith_space_iff)
  define d where "d = dropWhile py_isspace (rev (dropWhile py_isspace s))"
  have s: "py_strip s = rev d" by (simp add: py_strip_def d_def)
  have dne: "d \<noteq> []" using ne s by simp
  have "\<not> py_isspace (hd d)" unfolding d_def using dne hd_dropWhile d_def by blast
  moreover have "hd d = 32" using l s dne by (simp add: last_rev)
  ultimately show False by (simp add: py_isspace_def)
qed

lemma appended_space: "\<not> py_endswith t [32] \<Longrightarrow> one_trailing_space (t @ [32])"
proof -
  assume n: "\<not> py_endswith t [32]"
  have "py_endswith (t @ [32]) [32]" by (simp add: endswith_space_iff)
  moreover have "\<not> py_endswith (t @ [32]) [32, 32]" using n by (simp add: endswith_two_spaces_iff)
  ultimately show ?thesis by (simp add: one_trailing_space_def asc_space)
qed

lemma emit_one_space: "well_spaced h \<Longrightarrow> one_trailing_space (e_text (emit U stats h))"
  by (auto simp: well_spaced_def emit_def asc_space appended_space)

lemma candidate_well_spaced: "h \<in> set (candidate U lang stats dt s) \<Longrightarrow> well_spaced h"
  by (auto simp: candidate_def Let_def well_spaced_def asc_space strip_no_trailing_space split: if_splits)

lemma potential_well_spaced: "h \<in> set (potential_headings U spans) \<Longrightarrow> well_spaced h"
  by (auto simp: potential_headings_def dest: candidate_well_spaced)

lemma generic_filter_subset: "set (generic_filter U seen hs) \<subseteq> set hs"
  by (induction hs arbitrary: seen) auto

lemma reconcile_well_spaced:
  assumes "list_all (\<lambda>e. one_trailing_space (fst e)) es" and "h \<in> set (reconcile U hs m 0 0 [] es)"
  shows "well_spaced h"
proof -
  have "h_text h \<in> set (map h_text (reconcile U hs m 0 0 [] es))" using assms(2) by simp
  then have "h_text h \<in> fst ` set es" by (simp add: reconcile_text)
  then show ?thesis using assms(1) by (auto simp: list_all_iff well_spaced_def)
qed

lemma filter_well_spaced:
  assumes "\<forall>h \<in> set hs. well_spaced h" and "h \<in> set (filter_headings U hs dt)"
  shows "well_spaced h"
proof (cases dt)
  case Form
  then show ?thesis using assms(2) by (simp add: filter_headings_def)
next
  case Technical
  then show ?thesis using assms(2) reconcile_well_spaced [OF technical_texts_spaced]
    by (simp add: filter_technical)
next
  case Rfp
  then show ?thesis using assms(2) reconcile_well_spaced [OF rfp_texts_spaced]
    by (simp add: filter_rfp)
next
  case Pathways
  then show ?thesis using assms by (simp add: filter_headings_def)
next
  case Event
  then show ?thesis using assms generic_filter_subset [of U "{}" hs]
    by (auto simp: filter_headings_def)
next
  case Other
  then show ?thesis using assms generic_filter_subset [of U "{}" hs]
    by (auto simp: filter_headings_def)
qed

lemma event_entry_spaced: "one_trailing_space (e_text event_entry)"
  by (simp add: event_entry_def one_trailing_space_def str_eval)

lemma largest_font_title_spaced:
  "largest_font_title spans \<noteq> [] \<Longrightarrow> one_trailing_space (largest_font_title spans)"
  by (auto simp: largest_font_title_def Let_def asc_space strip_no_trailing_space appended_space
      split: list.splits if_splits)

text \<open>
  Claim C2. The text of every entry of every emitted outline ends with exactly one space;
  the title of the largest-font fallback, when it is not empty, ends with exactly one
  space; and \<open>emit\<close> appends a space exactly when the text does not end with one.
\<close>

theorem C2_trailing_space:
  "(\<forall>e \<in> set (out_outline (process_document U spans)). one_trailing_space (e_text e)) \<and>
   (largest_font_title spans \<noteq> [] \<longrightarrow> one_trailing_space (largest_font_title spans)) \<and>
   e_text (emit U stats h) =
     (if py_endswith (h_text h) (asc '' '') then h_text h else h_text h @ asc '' '')"
proof (intro conjI ballI impI)
  fix e assume e: "e \<in> set (out_outline (process_document U spans))"
  define fh where "fh = filter_headings U (sort_by_score (potential_headings U spans)) (document_type U spans)"
  have "\<forall>h \<in> set (sort_by_score (potential_headings U spans)). well_spaced h"
    by (simp add: sort_by_score_def potential_well_spaced)
  then have w: "\<forall>h \<in> set fh. well_spaced h" unfolding fh_def using filter_well_spaced by blast
  have "e = event_entry \<or> e \<in> emit U (analyze_document_structure spans) ` set fh"
    using e unfolding fh_def by (auto simp: process_document_def Let_def split: if_splits)
  then show "one_trailing_space (e_text e)"
    using w event_entry_spaced emit_one_space by blast
next
  assume "largest_font_title spans \<noteq> []"
  then show "one_trailing_space (largest_font_title spans)" by (rule largest_font_title_spaced)
next
  show "e_text (emit U stats h) =
     (if py_endswith (h_text h) (asc '' '') then h_text h else h_text h @ asc '' '')"
    by (simp add: emit_def)
qed


section \<open>A one-line document, end to end\<close>

lemmas cand_eval = candidate_def is_likely_heading_def calculate_heading_importance_def
  bold_bonus_def pattern_bonus_def canonical_sections_def percentile_of_def
  analyze_document_structure_def exclude_patterns_def heading_patterns_def spanish_pattern_def
  line_span_def plain_lib_sel Let_def

lemmas level_eval = classify_heading_level_def h1_patterns_def h2_patterns_def h3_patterns_def
  h4_patterns_def percentile_of_def analyze_document_structure_def line_span_def

lemmas generic_eval = filter_headings_def sort_by_score_def dedup_key_def dedup_text_def
  strip_non_alnum_def alnum_space_def collapse_ws_def passes_def plain_lib_sel

lemma nw_lang: "detect_language (plain_lib (asc ''en'')) [news_line] = asc ''en''"
  by (simp add: news_line_def lang_eval str_eval)

lemma nw_title: "extract_document_title (plain_lib (asc ''en'')) [news_line] = asc ''What is new in 2024? ''"
  by (simp add: news_line_def title_eval str_eval)

lemma nw_class:
  "classify_document (plain_lib (asc ''en'')) (asc ''en'') (asc ''What is new in 2024? '') [news_line] = Other"
  by (simp add: classify_document_def str_eval Let_def plain_lib_sel)

lemma nw_type: "document_type (plain_lib (asc ''en'')) [news_line] = Other"
  by (simp only: document_type_def nw_lang nw_title nw_class)

lemma nw_candidates:
  "potential_headings (plain_lib (asc ''en'')) [news_line] =
     [\<lparr>h_level = None, h_text = asc ''What is new in 2024?'', h_span = Full news_line, h_score = 4\<rparr>]"
proof -
  have "potential_headings (plain_lib (asc ''en'')) [news_line] =
      candidate (plain_lib (asc ''en'')) (asc ''en'') (analyze_document_structure [news_line]) Other news_line"
    by (simp add: potential_headings_def nw_lang nw_type)
  also have "\<dots> = [\<lparr>h_level = None, h_text = asc ''What is new in 2024?'', h_span = Full news_line, h_score = 4\<rparr>]"
    by (simp add: news_line_def cand_eval rx_eval str_eval)
  finally show ?thesis .
qed

lemma nw_filtered:
  "filter_headings (plain_lib (asc ''en''))
     (sort_by_score [\<lparr>h_level = None, h_text = asc ''What is new in 2024?'', h_span = Full news_line, h_score = 4\<rparr>]) Other =
   [\<lparr>h_level = None, h_text = asc ''What is new in 2024?'', h_span = Full news_line, h_score = 4\<rparr>]"
  by (simp add: generic_eval str_eval)

lemma nw_emit:
  "emit (plain_lib (asc ''en'')) (analyze_document_structure [news_line])
     \<lparr>h_level = None, h_text = asc ''What is new in 2024?'', h_span = Full news_line, h_score = 4\<rparr> =
   \<lparr>e_level = H1, e_text = asc ''What is new in 2024? '', e_page = 0\<rparr>"
  by (simp add: emit_def news_line_def level_eval rx_eval str_eval)

lemma nw_output:
  "process_document (plain_lib (asc ''en'')) [news_line] =
     \<lparr>out_title = asc ''What is new in 2024? '',
      out_outline = [\<lparr>e_level = H1, e_text = asc ''What is new in 2024? '', e_page = 0\<rparr>]\<rparr>"
  by (simp add: process_document_def nw_lang nw_type nw_title nw_candidates nw_filtered nw_emit Let_def)

lemma nw_fallback: "largest_font_title [news_line] = asc ''What is new in 2024? ''"
  by (simp add: news_line_def largest_font_title_def line_span_def Let_def str_eval)

text \<open>The one-line document: its only outline entry and its fallback title end with one
  space, which \<open>emit\<close> and the fallback have appended.\<close>

theorem C2_witness:
  "\<lparr>e_level = H1, e_text = asc ''What is new in 2024? '', e_page = 0\<rparr>
     \<in> set (out_outline (process_document (plain_lib (asc ''en'')) [news_line])) \<and>
   largest_font_title [news_line] = asc ''What is new in 2024? '' \<and>
   largest_font_title [news_line] \<noteq> [] \<and>
   one_trailing_space (asc ''What is new in 2024? '')"
proof -
  have m: "\<lparr>e_level = H1, e_text = asc ''What is new in 2024? '', e_page = 0\<rparr>
     \<in> set (out_outline (process_document (plain_lib (asc ''en'')) [news_line]))"
    by (simp add: nw_output)
  have n: "largest_font_title [news_line] \<noteq> []" unfolding nw_fallback by (simp add: asc_def)
  have "one_trailing_space (e_text \<lparr>e_level = H1, e_text = asc ''What is new in 2024? '', e_page = 0\<rparr>)"
    using C2_trailing_space [of "plain_lib (asc ''en'')" "[news_line]"] m by blast
  then show ?thesis using m n nw_fallback by simp
qed


section \<open>The form title\<close>
























end
